theory Spec2Isabelle
  imports Complex_Main
begin

section \<open>Numbers of the C++ source\<close>

text \<open>
  The source computes with \<^verbatim>\<open>double\<close>, \<^verbatim>\<open>long\<close>, \<^verbatim>\<open>int\<close> and \<^verbatim>\<open>unsigned long\<close>.

  \<^item> A \<^verbatim>\<open>double\<close> is modelled by the type \<open>double\<close> below: a real number, the negative
    zero, or one of the three other special values of IEEE arithmetic. \<open>Fin 0\<close> is the
    positive zero and \<open>NZero\<close> the negative one; they compare equal and differ as divisors.
    Finite values are computed exactly, so the rounding of the last binary digit and the
    overflow of a large finite value to infinity are not represented; what is represented
    are the values that decide the branches of the code: division by a zero of either sign
    gives the infinity of the right sign or NaN, comparisons with NaN are false.
  \<^item> \<^verbatim>\<open>long\<close> and \<^verbatim>\<open>int\<close> are modelled by \<open>int\<close>: signed overflow is undefined in C++ and
    no step counter is taken near the ends of its range here.
  \<^item> \<^verbatim>\<open>unsigned long\<close> is modelled by \<open>nat\<close>, reduced modulo \<open>2 ^ 32\<close> where the source
    converts or multiplies (the width of \<^verbatim>\<open>long\<close> on the microcontrollers of \<^verbatim>\<open>src/HAL\<close>).
\<close>

datatype double = Fin real | NZero | PInf | NInf | NaN

definition isnan :: "double \<Rightarrow> bool" where
  "isnan d = (d = NaN)"

fun isfinite :: "double \<Rightarrow> bool" where
  "isfinite (Fin r) = True"
| "isfinite NZero = True"
| "isfinite d = False"

fun is_inf :: "double \<Rightarrow> bool" where
  "is_inf PInf = True"
| "is_inf NInf = True"
| "is_inf d = False"

fun is_zero :: "double \<Rightarrow> bool" where
  "is_zero (Fin r) = (r = 0)"
| "is_zero NZero = True"
| "is_zero d = False"

text \<open>The sign bit of a value, and the zero and the infinity of a given sign bit.\<close>

fun signbit :: "double \<Rightarrow> bool" where
  "signbit (Fin r) = (r < 0)"
| "signbit NZero = True"
| "signbit PInf = False"
| "signbit NInf = True"
| "signbit NaN = False"

fun zero_of :: "bool \<Rightarrow> double" where
  "zero_of True = NZero"
| "zero_of False = Fin 0"

fun inf_of :: "bool \<Rightarrow> double" where
  "inf_of True = NInf"
| "inf_of False = PInf"

fun fabs :: "double \<Rightarrow> double" where
  "fabs (Fin r) = Fin \<bar>r\<bar>"
| "fabs NZero = Fin 0"
| "fabs PInf = PInf"
| "fabs NInf = PInf"
| "fabs NaN = NaN"

text \<open>The comparisons \<^verbatim>\<open><\<close>, \<^verbatim>\<open><=\<close> and \<^verbatim>\<open>==\<close>.\<close>

fun dlt :: "double \<Rightarrow> double \<Rightarrow> bool" where
  "dlt (Fin x) (Fin y) = (x < y)"
| "dlt (Fin x) NZero = (x < 0)"
| "dlt NZero (Fin y) = (0 < y)"
| "dlt (Fin x) PInf = True"
| "dlt NZero PInf = True"
| "dlt NInf (Fin y) = True"
| "dlt NInf NZero = True"
| "dlt NInf PInf = True"
| "dlt a b = False"

fun dle :: "double \<Rightarrow> double \<Rightarrow> bool" where
  "dle (Fin x) (Fin y) = (x \<le> y)"
| "dle (Fin x) NZero = (x \<le> 0)"
| "dle NZero (Fin y) = (0 \<le> y)"
| "dle NaN b = False"
| "dle a NaN = False"
| "dle a PInf = True"
| "dle NInf b = True"
| "dle NZero NZero = True"
| "dle a b = False"

fun deq :: "double \<Rightarrow> double \<Rightarrow> bool" where
  "deq (Fin x) (Fin y) = (x = y)"
| "deq (Fin x) NZero = (x = 0)"
| "deq NZero (Fin y) = (0 = y)"
| "deq NZero NZero = True"
| "deq PInf PInf = True"
| "deq NInf NInf = True"
| "deq a b = False"

text \<open>Addition: the sum of two zeros is negative only if both are; an exact sum of zero is
  the positive zero.\<close>

fun dadd :: "double \<Rightarrow> double \<Rightarrow> double" where
  "dadd (Fin x) (Fin y) = Fin (x + y)"
| "dadd NaN b = NaN"
| "dadd a NaN = NaN"
| "dadd NZero b = b"
| "dadd a NZero = a"
| "dadd PInf NInf = NaN"
| "dadd NInf PInf = NaN"
| "dadd (Fin x) b = b"
| "dadd a b = a"

fun dneg :: "double \<Rightarrow> double" where
  "dneg (Fin r) = (if r = 0 then NZero else Fin (- r))"
| "dneg NZero = Fin 0"
| "dneg PInf = NInf"
| "dneg NInf = PInf"
| "dneg NaN = NaN"

definition dsub :: "double \<Rightarrow> double \<Rightarrow> double" where
  "dsub a b = dadd a (dneg b)"

text \<open>Multiplication: the sign of the product is the exclusive or of the signs, also for a
  zero or an infinite product; zero times infinity is NaN.\<close>

fun dmul :: "double \<Rightarrow> double \<Rightarrow> double" where
  "dmul (Fin x) (Fin y) =
     (if x * y = 0 then zero_of ((x < 0) \<noteq> (y < 0)) else Fin (x * y))"
| "dmul NaN b = NaN"
| "dmul a NaN = NaN"
| "dmul a b =
     (if (is_inf a \<and> is_zero b) \<or> (is_zero a \<and> is_inf b) then NaN
      else if is_inf a \<or> is_inf b then inf_of (signbit a \<noteq> signbit b)
      else zero_of (signbit a \<noteq> signbit b))"

text \<open>
  Division: a nonzero value divided by a zero is the infinity whose sign is the exclusive
  or of the signs, \<open>0 / 0\<close> and \<open>\<infinity> / \<infinity>\<close> are NaN, a finite value divided by an infinity
  and a zero divided by a nonzero value are the zero of that sign.
\<close>

fun ddiv :: "double \<Rightarrow> double \<Rightarrow> double" where
  "ddiv (Fin x) (Fin y) =
     (if y = 0 then (if x = 0 then NaN else inf_of (x < 0))
      else if x = 0 then zero_of (y < 0)
      else Fin (x / y))"
| "ddiv NaN b = NaN"
| "ddiv a NaN = NaN"
| "ddiv a b =
     (if (is_inf a \<and> is_inf b) \<or> (is_zero a \<and> is_zero b) then NaN
      else if is_inf a \<or> is_zero b then inf_of (signbit a \<noteq> signbit b)
      else zero_of (signbit a \<noteq> signbit b))"

text \<open>\<^verbatim>\<open>lround\<close>: to the nearest integer, halves away from zero. Its value at an infinity or
  NaN is unspecified in C; the model gives 0 there.\<close>

fun lround :: "double \<Rightarrow> int" where
  "lround (Fin r) = (if 0 \<le> r then \<lfloor>r + 1 / 2\<rfloor> else - \<lfloor>- r + 1 / 2\<rfloor>)"
| "lround d = 0"

text \<open>The implicit conversion of a \<^verbatim>\<open>double\<close> to \<^verbatim>\<open>long\<close> drops the fraction (towards
  zero); at an infinity or NaN it is undefined in C, and the model gives 0.\<close>

fun double_to_long :: "double \<Rightarrow> int" where
  "double_to_long (Fin r) = (if 0 \<le> r then \<lfloor>r\<rfloor> else - \<lfloor>- r\<rfloor>)"
| "double_to_long d = 0"

definition long_to_double :: "int \<Rightarrow> double" where
  "long_to_double i = Fin (of_int i)"

definition ulong_to_double :: "nat \<Rightarrow> double" where
  "ulong_to_double n = Fin (of_nat n)"

text \<open>The cast \<^verbatim>\<open>(unsigned long)\<close> of a \<^verbatim>\<open>long\<close>.\<close>

definition long_to_ulong :: "int \<Rightarrow> nat" where
  "long_to_ulong i = nat (i mod 2 ^ 32)"


section \<open>Axis (src/lib/Axis.cpp)\<close>

datatype Level = LOW | HIGH

text \<open>The enumeration is declared in a header that is not under \<^verbatim>\<open>src/\<close>; \<^verbatim>\<open>Axis::move\<close>
  names two of its values, the others are collected in \<open>MMC_OTHER\<close>.\<close>

datatype MicrostepModeControl = MMC_SLEWING_READY | MMC_SLEWING | MMC_OTHER

text \<open>
  The members of class \<^verbatim>\<open>Axis\<close> that \<^verbatim>\<open>Axis.cpp\<close> reads and writes. Three fields stand for
  what the axis drives outside itself: \<open>stepPin\<close>, \<open>dirPin\<close> and \<open>enablePin\<close> are the levels
  last written to the pins \<^verbatim>\<open>Pins.step\<close>, \<^verbatim>\<open>Pins.dir\<close> and \<^verbatim>\<open>Pins.enable\<close>, and
  \<open>taskPeriod\<close> is the period last given to \<^verbatim>\<open>tasks.setPeriodSubMicros\<close> for the axis's task.
\<close>

record Axis =
  Pins_enable :: int
  invertStep :: bool
  invertDir :: bool
  invertEnabled :: bool
  enabled :: bool
  tracking :: bool
  spm :: double
  target :: double
  originSteps :: int
  targetSteps :: int
  motorSteps :: int
  indexSteps :: int
  trackingStep :: int
  step :: int
  stepGoto :: int
  backlashSteps :: int
  backlashAmountSteps :: int
  minSteps :: int
  maxSteps :: int
  maxFreq :: double
  minPeriodMicros :: double
  lastPeriod :: nat
  takeStep :: bool
  dirFwd :: bool
  microstepModeControl :: MicrostepModeControl
  stepPin :: Level
  dirPin :: Level
  enablePin :: Level
  taskPeriod :: nat

text \<open>Modelled from the spec: the macro \<^verbatim>\<open>OFF\<close> of \<^verbatim>\<open>Constants.h\<close>, which is not under
  \<^verbatim>\<open>src/\<close>; as a pin number it means that "no enable pin is wired".\<close>

definition OFF :: int where
  "OFF = - 1"

definition enable :: "Axis \<Rightarrow> bool \<Rightarrow> Axis" where
  "enable a v =
     (if Pins_enable a \<noteq> OFF then
        a\<lparr>enablePin :=
              (if v then (if invertEnabled a then HIGH else LOW)
               else (if invertEnabled a then LOW else HIGH)),
          enabled := v\<rparr>
      else a)"

definition isEnabled :: "Axis \<Rightarrow> bool" where
  "isEnabled a = enabled a"

definition getStepsPerMeasure :: "Axis \<Rightarrow> double" where
  "getStepsPerMeasure a = spm a"

definition setMotorCoordinateSteps :: "Axis \<Rightarrow> int \<Rightarrow> Axis" where
  "setMotorCoordinateSteps a v =
     a\<lparr>indexSteps := 0, motorSteps := v, targetSteps := v, backlashSteps := 0\<rparr>"

definition setMotorCoordinate :: "Axis \<Rightarrow> double \<Rightarrow> Axis" where
  "setMotorCoordinate a v = setMotorCoordinateSteps a (lround (dmul v (spm a)))"

definition getMotorCoordinateSteps :: "Axis \<Rightarrow> int" where
  "getMotorCoordinateSteps a = motorSteps a + backlashSteps a"

definition getInstrumentCoordinateSteps :: "Axis \<Rightarrow> int" where
  "getInstrumentCoordinateSteps a = motorSteps a + indexSteps a"

definition setInstrumentCoordinate :: "Axis \<Rightarrow> double \<Rightarrow> Axis" where
  "setInstrumentCoordinate a v =
     (let steps = double_to_long (dmul v (spm a))
      in a\<lparr>indexSteps := steps - motorSteps a\<rparr>)"

definition setTargetCoordinate :: "Axis \<Rightarrow> double \<Rightarrow> Axis" where
  "setTargetCoordinate a v =
     (let a = a\<lparr>target := dmul v (spm a)\<rparr>;
          steps = lround (target a)
      in a\<lparr>targetSteps := steps - indexSteps a\<rparr>)"

definition getTargetCoordinate :: "Axis \<Rightarrow> double" where
  "getTargetCoordinate a = ddiv (long_to_double (targetSteps a + indexSteps a)) (spm a)"

definition moveTargetCoordinate :: "Axis \<Rightarrow> double \<Rightarrow> Axis" where
  "moveTargetCoordinate a v =
     (let a = a\<lparr>target := dadd (target a) (dmul v (spm a))\<rparr>;
          steps = lround (target a)
      in a\<lparr>targetSteps := steps - indexSteps a\<rparr>)"

text \<open>\<^verbatim>\<open>fabs((motorSteps + backlashSteps) - targetSteps) <= step * 2.0\<close>: both sides are
  integers converted to \<^verbatim>\<open>double\<close>, so the comparison is the one on the integers.\<close>

definition nearTarget :: "Axis \<Rightarrow> bool" where
  "nearTarget a = (\<bar>(motorSteps a + backlashSteps a) - targetSteps a\<bar> \<le> step a * 2)"

definition setTracking :: "Axis \<Rightarrow> bool \<Rightarrow> Axis" where
  "setTracking a t = a\<lparr>tracking := t\<rparr>"

definition getTracking :: "Axis \<Rightarrow> bool" where
  "getTracking a = tracking a"

definition setBacklash :: "Axis \<Rightarrow> double \<Rightarrow> Axis" where
  "setBacklash a v = a\<lparr>backlashAmountSteps := double_to_long (dmul v (spm a))\<rparr>"

definition getBacklash :: "Axis \<Rightarrow> double" where
  "getBacklash a = ddiv (long_to_double (backlashSteps a)) (spm a)"

text \<open>
  \<^verbatim>\<open>Axis::move\<close>, one call of the generator. The phase with \<open>takeStep\<close> set moves the
  position one \<open>step\<close> towards the target and raises the step pin; the other phase sets
  the direction pin where the direction changed and returns the step pin to its idle
  level. \<open>takeStep\<close> is inverted at the end of every call.
\<close>

definition move :: "Axis \<Rightarrow> Axis" where
  "move a0 =
     (let a =
        (if takeStep a0 then
           (let a = (if tracking a0 then a0\<lparr>targetSteps := targetSteps a0 + trackingStep a0\<rparr>
                     else a0)
            in if motorSteps a + backlashSteps a > targetSteps a then
                 (let a = (if backlashSteps a > 0
                           then a\<lparr>backlashSteps := backlashSteps a - step a\<rparr>
                           else a\<lparr>motorSteps := motorSteps a - step a\<rparr>)
                  in a\<lparr>stepPin := (if invertStep a then LOW else HIGH)\<rparr>)
               else if motorSteps a + backlashSteps a < targetSteps a then
                 (let a = (if backlashSteps a < backlashAmountSteps a
                           then a\<lparr>backlashSteps := backlashSteps a + step a\<rparr>
                           else a\<lparr>motorSteps := motorSteps a + step a\<rparr>)
                  in a\<lparr>stepPin := (if invertStep a then LOW else HIGH)\<rparr>)
               else a)
         else
           (let a = (if motorSteps a0 + backlashSteps a0 > targetSteps a0 then
                       (if \<not> dirFwd a0
                        then a0\<lparr>dirFwd := \<not> dirFwd a0,
                                dirPin := (if invertDir a0 then LOW else HIGH)\<rparr>
                        else a0)
                     else if motorSteps a0 + backlashSteps a0 < targetSteps a0 then
                       (if dirFwd a0
                        then a0\<lparr>dirFwd := \<not> dirFwd a0,
                                dirPin := (if invertDir a0 then HIGH else LOW)\<rparr>
                        else a0)
                     else a0);
                a = (if microstepModeControl a = MMC_SLEWING_READY
                     then a\<lparr>microstepModeControl := MMC_SLEWING\<rparr> else a)
            in a\<lparr>stepPin := (if invertStep a then HIGH else LOW)\<rparr>))
      in a\<lparr>takeStep := \<not> takeStep a\<rparr>)"

text \<open>Modelled from the spec: the macro \<^verbatim>\<open>SIDEREAL_PERIOD\<close> of \<^verbatim>\<open>Constants.h\<close>, which is
  not under \<^verbatim>\<open>src/\<close>; "the ideal sidereal tick period", the length of the sidereal time
  unit in sub-microsecond ticks.\<close>

definition SIDEREAL_PERIOD :: double where
  "SIDEREAL_PERIOD = Fin 15956313.06126534"

definition setFrequencyMax :: "Axis \<Rightarrow> double \<Rightarrow> Axis" where
  "setFrequencyMax a frequency =
     (let a = a\<lparr>maxFreq := dmul frequency (spm a)\<rparr>
      in if \<not> deq frequency (Fin 0) then a\<lparr>minPeriodMicros := ddiv (Fin 1000000) (maxFreq a)\<rparr>
         else a\<lparr>minPeriodMicros := Fin 0\<rparr>)"

text \<open>\<^verbatim>\<open>Axis::setFrequency\<close>; \<open>clockPeriod\<close> is the value of \<^verbatim>\<open>clock.getPeriodSubMicros()\<close>.\<close>

definition setFrequency :: "nat \<Rightarrow> Axis \<Rightarrow> double \<Rightarrow> Axis" where
  "setFrequency clockPeriod a frequency =
     (let d = ddiv (Fin 1000000) (dmul frequency (spm a));
          d = (if dlt d (minPeriodMicros a) then minPeriodMicros a else d);
          d = ddiv d (Fin 2)
      in if \<not> isnan d \<and> dle (fabs d) (Fin 134000000) then
           (let d = dmul d (Fin 16);
                a = a\<lparr>lastPeriod := long_to_ulong (lround d)\<rparr>;
                d = dmul d (ddiv SIDEREAL_PERIOD (ulong_to_double clockPeriod))
            in a\<lparr>taskPeriod := long_to_ulong (lround d)\<rparr>)
         else a\<lparr>lastPeriod := 0, taskPeriod := long_to_ulong (lround (Fin 0))\<rparr>)"

definition getFrequencySteps :: "Axis \<Rightarrow> double" where
  "getFrequencySteps a =
     (if lastPeriod a = 0 then Fin 0
      else ddiv (Fin 16000000) (ulong_to_double ((lastPeriod a * 2) mod 2 ^ 32)))"

definition getFrequency :: "Axis \<Rightarrow> double" where
  "getFrequency a = ddiv (getFrequencySteps a) (spm a)"

text \<open>What the command context and the generator do to an axis, one event at a time.\<close>

datatype AxisEvent =
    Tick
  | SetTargetCoordinate double
  | MoveTargetCoordinate double
  | SetTracking bool

fun axis_event :: "Axis \<Rightarrow> AxisEvent \<Rightarrow> Axis" where
  "axis_event a Tick = move a"
| "axis_event a (SetTargetCoordinate v) = setTargetCoordinate a v"
| "axis_event a (MoveTargetCoordinate v) = moveTargetCoordinate a v"
| "axis_event a (SetTracking t) = setTracking a t"

fun axis_run :: "Axis \<Rightarrow> AxisEvent list \<Rightarrow> Axis" where
  "axis_run a [] = a"
| "axis_run a (e # es) = axis_run (axis_event a e) es"

text \<open>The invariant of the specification: the banked backlash is within the configured
  amount.\<close>

definition backlash_bounded :: "Axis \<Rightarrow> bool" where
  "backlash_bounded a = (0 \<le> backlashSteps a \<and> backlashSteps a \<le> backlashAmountSteps a)"

text \<open>Repeated calls of the generator, the distance of the position from the target, and
  the idle level of the step pin.\<close>

fun ticks :: "nat \<Rightarrow> Axis \<Rightarrow> Axis" where
  "ticks 0 a = a"
| "ticks (Suc n) a = ticks n (move a)"

definition position_error :: "Axis \<Rightarrow> int" where
  "position_error a = \<bar>(motorSteps a + backlashSteps a) - targetSteps a\<bar>"

definition step_idle :: "Axis \<Rightarrow> Level" where
  "step_idle a = (if invertStep a then HIGH else LOW)"

text \<open>The generator left to itself: unit steps and no tracking.\<close>

definition steady :: "Axis \<Rightarrow> bool" where
  "steady a = (step a = 1 \<and> \<not> tracking a)"

text \<open>A run towards the target \<open>t\<close> from below, started with the motor at \<open>m0\<close>: the motor
  has not moved as long as backlash is still being taken up.\<close>

definition forward_run :: "int \<Rightarrow> int \<Rightarrow> Axis \<Rightarrow> bool" where
  "forward_run m0 t a =
     (step a = 1 \<and> \<not> tracking a \<and> targetSteps a = t
      \<and> 0 \<le> backlashSteps a \<and> backlashSteps a \<le> backlashAmountSteps a
      \<and> motorSteps a + backlashSteps a \<le> t \<and> m0 \<le> motorSteps a
      \<and> (motorSteps a = m0 \<or> backlashSteps a = backlashAmountSteps a))"

section \<open>Mount (src/lib/Mount.cpp)\<close>

text \<open>
  Modelled from the spec: the unit-conversion macros that \<^verbatim>\<open>Mount.cpp\<close> uses
  (\<^verbatim>\<open>degToRad\<close>, \<^verbatim>\<open>radToDeg\<close>, \<^verbatim>\<open>hrsToRad\<close>, \<^verbatim>\<open>arcsecToRad\<close>, \<^verbatim>\<open>radToArcsec\<close>,
  \<^verbatim>\<open>hzToSidereal\<close>, \<^verbatim>\<open>siderealToRad\<close>, \<^verbatim>\<open>hzToSubMicros\<close>) and the constants \<^verbatim>\<open>RAD\<close>
  and \<^verbatim>\<open>SIDEREAL_RATE_HZ\<close> are defined in \<^verbatim>\<open>Constants.h\<close>, which is not under \<^verbatim>\<open>src/\<close>.
  The specification names them as pure arithmetic between physical units; each is the
  multiplication or division by the ratio of its two units.
\<close>

definition RAD :: double where
  "RAD = Fin 57.29577951308232"

definition degToRad :: "double \<Rightarrow> double" where
  "degToRad x = ddiv x RAD"

definition radToDeg :: "double \<Rightarrow> double" where
  "radToDeg x = dmul x RAD"

definition hrsToRad :: "double \<Rightarrow> double" where
  "hrsToRad x = ddiv x (Fin 3.819718634205488)"

definition arcsecToRad :: "double \<Rightarrow> double" where
  "arcsecToRad x = ddiv x (Fin 206264.8062470963)"

definition radToArcsec :: "double \<Rightarrow> double" where
  "radToArcsec x = dmul x (Fin 206264.8062470963)"

definition SIDEREAL_RATE_HZ :: double where
  "SIDEREAL_RATE_HZ = Fin 60.16427456104770"

definition hzToSidereal :: "double \<Rightarrow> double" where
  "hzToSidereal x = ddiv x SIDEREAL_RATE_HZ"

definition siderealToRad :: "double \<Rightarrow> double" where
  "siderealToRad x = ddiv x (Fin 13750.98708313975)"

definition hzToSubMicros :: "double \<Rightarrow> double" where
  "hzToSubMicros x = dmul x (Fin 266666.666666667)"

text \<open>The conversion of a \<^verbatim>\<open>double\<close> argument to an \<^verbatim>\<open>unsigned long\<close> parameter.\<close>

definition double_to_ulong :: "double \<Rightarrow> nat" where
  "double_to_ulong x = long_to_ulong (double_to_long x)"

text \<open>
  The enumerations of \<^verbatim>\<open>Mount.h\<close> and \<^verbatim>\<open>ProcessCmds.h\<close> (not under \<^verbatim>\<open>src/\<close>), with the
  values that \<^verbatim>\<open>Mount.cpp\<close> names; \<open>GS_OTHER\<close> and \<open>GU_OTHER\<close> stand for the values it does
  not name.
\<close>

datatype MountType = GEM | FORK | ALTAZM

datatype TrackingState = TS_NONE | TS_SIDEREAL

datatype GotoState = GS_NONE | GS_OTHER

datatype ParkState = PS_UNPARKED | PS_PARKING | PS_PARKED | PS_PARK_FAILED

datatype GuideState = GU_NONE | GU_PULSE_GUIDE | GU_OTHER

datatype RateCompensation = RC_NONE | RC_REFR_RA | RC_REFR_BOTH | RC_FULL_RA | RC_FULL_BOTH

datatype CommandError =
    CE_NONE
  | CE_PARAM_RANGE
  | CE_PARAM_FORM
  | CE_CMD_UNKNOWN
  | CE_PARKED
  | CE_MOUNT_IN_MOTION
  | CE_GOTO_ERR_BELOW_HORIZON
  | CE_GOTO_ERR_UNSPECIFIED

text \<open>The members \<^verbatim>\<open>r\<close>, \<^verbatim>\<open>d\<close>, \<^verbatim>\<open>a\<close>, \<^verbatim>\<open>z\<close> of a coordinate.\<close>

record Coordinate =
  coord_r :: double
  coord_d :: double
  coord_a :: double
  coord_z :: double

record Limits =
  minAltitude :: double
  maxAltitude :: double

record GeneralErrors =
  altitudeMin :: bool
  limitSense :: bool
  decMinMax :: bool
  azmMinMax :: bool
  raMinMax :: bool
  raMeridian :: bool
  sync :: bool
  altitudeMax :: bool
  park :: bool

text \<open>
  The state that the modelled part of \<^verbatim>\<open>Mount.cpp\<close> reads and writes: the members of
  \<^verbatim>\<open>Mount\<close>, and the global objects \<^verbatim>\<open>axis1\<close>, \<^verbatim>\<open>axis2\<close>, \<^verbatim>\<open>generalErrors\<close> and the period
  of \<^verbatim>\<open>clock\<close> (\<open>clockPeriodSubMicros\<close>).
\<close>

record Mount =
  mountType :: MountType
  trackingState :: TrackingState
  gotoState :: GotoState
  parkState :: ParkState
  guideState :: GuideState
  rateCompensation :: RateCompensation
  trackingRate :: double
  trackingRateAxis1 :: double
  trackingRateAxis2 :: double
  guideRateAxis1 :: double
  guideRateAxis2 :: double
  deltaRateAxis1 :: double
  deltaRateAxis2 :: double
  gotoTarget :: Coordinate
  limits :: Limits
  axis1 :: Axis
  axis2 :: Axis
  clockPeriodSubMicros :: nat
  generalErrors :: GeneralErrors

definition updateTrackingRates :: "Mount \<Rightarrow> Mount" where
  "updateTrackingRates m0 =
     (let m = (if mountType m0 \<noteq> ALTAZM then
                 (let m = m0\<lparr>trackingRateAxis1 := trackingRate m0\<rparr>
                  in if rateCompensation m \<noteq> RC_REFR_BOTH \<and> rateCompensation m \<noteq> RC_FULL_BOTH
                     then m\<lparr>trackingRateAxis2 := Fin 0\<rparr> else m)
               else m0);
          m = (if trackingState m = TS_NONE
               then m\<lparr>trackingRateAxis1 := Fin 0, trackingRateAxis2 := Fin 0\<rparr> else m);
          m = m\<lparr>axis1 := setFrequency (clockPeriodSubMicros m) (axis1 m)
                 (siderealToRad
                    (dadd (dadd (trackingRateAxis1 m) (guideRateAxis1 m)) (deltaRateAxis1 m)))\<rparr>
      in m\<lparr>axis2 := setFrequency (clockPeriodSubMicros m) (axis2 m)
                 (siderealToRad
                    (dadd (dadd (trackingRateAxis2 m) (guideRateAxis2 m)) (deltaRateAxis2 m)))\<rparr>)"

definition resetGeneralErrors :: "Mount \<Rightarrow> Mount" where
  "resetGeneralErrors m =
     m\<lparr>generalErrors := (generalErrors m)\<lparr>altitudeMin := False, limitSense := False,
          decMinMax := False, azmMinMax := False, raMinMax := False, raMeridian := False,
          sync := False, altitudeMax := False, park := False\<rparr>\<rparr>"


subsection \<open>Mount::command\<close>

text \<open>The reply buffer and the three result parameters of \<^verbatim>\<open>Mount::command\<close>.\<close>

record CommandIO =
  reply :: string
  supressFrame :: bool
  numericReply :: bool
  commandError :: CommandError

text \<open>
  The parsers of the global object \<^verbatim>\<open>convert\<close> (\<^verbatim>\<open>coordinates/Convert.h\<close>, not under
  \<^verbatim>\<open>src/\<close>) are parameters of the model. \<open>atoi2\<close> gives the integer it stores when it returns
  true. \<open>dmsToDouble\<close> and \<open>hmsToDouble\<close> write through a pointer: they take the value found
  behind it and give their return value with the value left behind it.
\<close>

record Convert =
  atoi2 :: "string \<Rightarrow> int option"
  dmsToDouble :: "double \<Rightarrow> string \<Rightarrow> bool \<Rightarrow> bool \<times> double"
  hmsToDouble :: "double \<Rightarrow> string \<Rightarrow> bool \<times> double"

text \<open>The character at an index of a C string; the terminator from its end on.\<close>

definition char_at :: "string \<Rightarrow> nat \<Rightarrow> char" where
  "char_at s i = (if i < length s then s ! i else CHR 0x00)"

text \<open>
  Modelled from the spec: the macros \<^verbatim>\<open>cmd\<close>, \<^verbatim>\<open>cmdH\<close> and \<^verbatim>\<open>cmdP\<close> are defined in
  \<^verbatim>\<open>commands/ProcessCmds.h\<close>, which is not under \<^verbatim>\<open>src/\<close>, and the specification leaves
  the command syntax to the protocol layer. All three compare the two command letters;
  \<^verbatim>\<open>cmd\<close> also wants an empty parameter, \<^verbatim>\<open>cmdH\<close> an empty parameter or the single letter
  \<^verbatim>\<open>H\<close>, \<^verbatim>\<open>cmdP\<close> takes any parameter.
\<close>

definition cmdP :: "string \<Rightarrow> string \<Rightarrow> bool" where
  "cmdP cs a = (char_at cs 0 = char_at a 0 \<and> char_at cs 1 = char_at a 1)"

definition cmd :: "string \<Rightarrow> string \<Rightarrow> string \<Rightarrow> bool" where
  "cmd cs ps a = (cmdP cs a \<and> char_at ps 0 = CHR 0x00)"

definition cmdH :: "string \<Rightarrow> string \<Rightarrow> string \<Rightarrow> bool" where
  "cmdH cs ps a =
     (cmdP cs a \<and> (char_at ps 0 = CHR 0x00 \<or> (char_at ps 0 = CHR ''H'' \<and> char_at ps 1 = CHR 0x00)))"

text \<open>The decimal digits of a number, and the three \<^verbatim>\<open>sprintf\<close> formats of the modelled
  handlers: \<^verbatim>\<open>"%d"\<close>, \<^verbatim>\<open>"%+02ld*"\<close> and \<^verbatim>\<open>"%02ld*"\<close>.\<close>

fun digits10 :: "nat \<Rightarrow> string" where
  "digits10 n =
     (if n < 10 then [''0123456789'' ! n]
      else digits10 (n div 10) @ [''0123456789'' ! (n mod 10)])"

declare digits10.simps [simp del]

definition sprintf_d :: "int \<Rightarrow> string" where
  "sprintf_d i = (if i < 0 then ''-'' @ digits10 (nat (- i)) else digits10 (nat i))"

definition sprintf_plus02ld_star :: "int \<Rightarrow> string" where
  "sprintf_plus02ld_star i =
     (if i < 0 then ''-'' @ digits10 (nat (- i)) else ''+'' @ digits10 (nat i)) @ ''*''"

definition sprintf_02ld_star :: "int \<Rightarrow> string" where
  "sprintf_02ld_star i =
     (if i < 0 then ''-'' @ digits10 (nat (- i))
      else if i < 10 then ''0'' @ digits10 (nat i)
      else digits10 (nat i)) @ ''*''"

text \<open>\<^verbatim>\<open>:Gh#\<close> and \<^verbatim>\<open>:Go#\<close>, the readers of the two altitude limits.\<close>

definition command_Gh :: "Mount \<Rightarrow> CommandIO \<Rightarrow> Mount \<times> CommandIO" where
  "command_Gh m io =
     (m, io\<lparr>reply := sprintf_plus02ld_star (lround (radToDeg (minAltitude (limits m)))),
            numericReply := False\<rparr>)"

definition command_Go :: "Mount \<Rightarrow> CommandIO \<Rightarrow> Mount \<times> CommandIO" where
  "command_Go m io =
     (m, io\<lparr>reply := sprintf_02ld_star (lround (radToDeg (maxAltitude (limits m)))),
            numericReply := False\<rparr>)"

text \<open>\<^verbatim>\<open>:Sa\<close>, \<^verbatim>\<open>:Sd\<close>, \<^verbatim>\<open>:Sr\<close>, \<^verbatim>\<open>:Sz\<close>: the setters of the goto target. The conversion to radians
  is a statement of its own after the \<^verbatim>\<open>if\<close>, so it runs whether the parser succeeded or
  not.\<close>

definition command_Sa :: "Convert \<Rightarrow> Mount \<Rightarrow> CommandIO \<Rightarrow> string \<Rightarrow> Mount \<times> CommandIO" where
  "command_Sa conv m io ps =
     (let (ok, v) = dmsToDouble conv (coord_a (gotoTarget m)) ps True;
          io = (if \<not> ok then io\<lparr>commandError := CE_PARAM_RANGE\<rparr> else io)
      in (m\<lparr>gotoTarget := (gotoTarget m)\<lparr>coord_a := degToRad v\<rparr>\<rparr>, io))"

definition command_Sd :: "Convert \<Rightarrow> Mount \<Rightarrow> CommandIO \<Rightarrow> string \<Rightarrow> Mount \<times> CommandIO" where
  "command_Sd conv m io ps =
     (let (ok, v) = dmsToDouble conv (coord_d (gotoTarget m)) ps True;
          io = (if \<not> ok then io\<lparr>commandError := CE_PARAM_RANGE\<rparr> else io)
      in (m\<lparr>gotoTarget := (gotoTarget m)\<lparr>coord_d := degToRad v\<rparr>\<rparr>, io))"

definition command_Sr :: "Convert \<Rightarrow> Mount \<Rightarrow> CommandIO \<Rightarrow> string \<Rightarrow> Mount \<times> CommandIO" where
  "command_Sr conv m io ps =
     (let (ok, v) = hmsToDouble conv (coord_r (gotoTarget m)) ps;
          io = (if \<not> ok then io\<lparr>commandError := CE_PARAM_RANGE\<rparr> else io)
      in (m\<lparr>gotoTarget := (gotoTarget m)\<lparr>coord_r := hrsToRad v\<rparr>\<rparr>, io))"

definition command_Sz :: "Convert \<Rightarrow> Mount \<Rightarrow> CommandIO \<Rightarrow> string \<Rightarrow> Mount \<times> CommandIO" where
  "command_Sz conv m io ps =
     (let (ok, v) = dmsToDouble conv (coord_z (gotoTarget m)) ps False;
          io = (if \<not> ok then io\<lparr>commandError := CE_PARAM_RANGE\<rparr> else io)
      in (m\<lparr>gotoTarget := (gotoTarget m)\<lparr>coord_z := degToRad v\<rparr>\<rparr>, io))"

text \<open>\<^verbatim>\<open>:Sh[sDD]#\<close>, the horizon limit, and \<^verbatim>\<open>:So[DD]#\<close>, the overhead limit.\<close>

definition command_Sh :: "Convert \<Rightarrow> Mount \<Rightarrow> CommandIO \<Rightarrow> string \<Rightarrow> Mount \<times> CommandIO" where
  "command_Sh conv m io ps =
     (case atoi2 conv ps of
        Some deg \<Rightarrow>
          if deg \<ge> - 30 \<and> deg \<le> 30
          then (m\<lparr>limits := (limits m)\<lparr>minAltitude := degToRad (long_to_double deg)\<rparr>\<rparr>, io)
          else (m, io\<lparr>commandError := CE_PARAM_RANGE\<rparr>)
      | None \<Rightarrow> (m, io\<lparr>commandError := CE_PARAM_FORM\<rparr>))"

definition command_So :: "Convert \<Rightarrow> Mount \<Rightarrow> CommandIO \<Rightarrow> string \<Rightarrow> Mount \<times> CommandIO" where
  "command_So conv m io ps =
     (case atoi2 conv ps of
        Some deg \<Rightarrow>
          if deg \<ge> 60 \<and> deg \<le> 90 then
            (let m = m\<lparr>limits := (limits m)\<lparr>maxAltitude := degToRad (long_to_double deg)\<rparr>\<rparr>;
                 m = (if mountType m = ALTAZM \<and> dlt (Fin 87) (maxAltitude (limits m))
                      then m\<lparr>limits := (limits m)\<lparr>maxAltitude := Fin 87\<rparr>\<rparr> else m)
             in (m, io))
          else (m, io\<lparr>commandError := CE_PARAM_RANGE\<rparr>)
      | None \<Rightarrow> (m, io\<lparr>commandError := CE_PARAM_FORM\<rparr>))"

text \<open>
  The tracking commands; \<open>c1\<close> is \<^verbatim>\<open>command[1]\<close>. The source has two chains of
  \<^verbatim>\<open>if ... else if\<close>: the first ends after the test for \<^verbatim>\<open>n\<close>, the second starts at the
  test for \<^verbatim>\<open>1\<close> and ends in \<^verbatim>\<open>else *commandError = CE_CMD_UNKNOWN\<close>.
\<close>

definition command_T :: "Mount \<Rightarrow> CommandIO \<Rightarrow> char \<Rightarrow> Mount \<times> CommandIO" where
  "command_T m0 io0 c1 =
     (let m = (if c1 = CHR ''o'' \<and> mountType m0 \<noteq> ALTAZM then m0\<lparr>rateCompensation := RC_FULL_RA\<rparr>
               else if c1 = CHR ''r'' \<and> mountType m0 \<noteq> ALTAZM then m0\<lparr>rateCompensation := RC_REFR_RA\<rparr>
               else if c1 = CHR ''n'' \<and> mountType m0 \<noteq> ALTAZM then m0\<lparr>rateCompensation := RC_NONE\<rparr>
               else m0);
          (m, io) =
            (if c1 = CHR ''1'' \<and> mountType m \<noteq> ALTAZM then
               (if rateCompensation m = RC_REFR_BOTH then m\<lparr>rateCompensation := RC_REFR_RA\<rparr>
                else if rateCompensation m = RC_FULL_BOTH then m\<lparr>rateCompensation := RC_FULL_RA\<rparr>
                else m, io0)
             else if c1 = CHR ''2'' \<and> mountType m \<noteq> ALTAZM then
               (if rateCompensation m = RC_REFR_RA then m\<lparr>rateCompensation := RC_REFR_BOTH\<rparr>
                else if rateCompensation m = RC_FULL_RA then m\<lparr>rateCompensation := RC_FULL_BOTH\<rparr>
                else m, io0)
             else if c1 = CHR ''S'' then
               (m\<lparr>rateCompensation := RC_NONE, trackingRate := hzToSidereal (Fin 60)\<rparr>, io0)
             else if c1 = CHR ''K'' then
               (m\<lparr>rateCompensation := RC_NONE, trackingRate := hzToSidereal (Fin 60.136)\<rparr>, io0)
             else if c1 = CHR ''L'' then
               (m\<lparr>rateCompensation := RC_NONE, trackingRate := hzToSidereal (Fin 57.9)\<rparr>, io0)
             else if c1 = CHR ''Q'' then
               (m\<lparr>trackingRate := hzToSidereal SIDEREAL_RATE_HZ\<rparr>, io0)
             else if c1 = CHR ''+'' then
               (m\<lparr>clockPeriodSubMicros := double_to_ulong
                    (dsub (ulong_to_double (clockPeriodSubMicros m)) (hzToSubMicros (Fin 0.02)))\<rparr>, io0)
             else if c1 = CHR ''-'' then
               (m\<lparr>clockPeriodSubMicros := double_to_ulong
                    (dadd (ulong_to_double (clockPeriodSubMicros m)) (hzToSubMicros (Fin 0.02)))\<rparr>, io0)
             else if c1 = CHR ''R'' then
               (m\<lparr>clockPeriodSubMicros := double_to_ulong SIDEREAL_PERIOD\<rparr>, io0)
             else if c1 = CHR ''e'' then
               (if parkState m \<noteq> PS_PARKED then
                  (let m = resetGeneralErrors m;
                       m = m\<lparr>trackingState := TS_SIDEREAL\<rparr>;
                       m = m\<lparr>axis1 := enable (axis1 m) True\<rparr>
                   in m\<lparr>axis2 := enable (axis2 m) True\<rparr>, io0)
                else (m, io0\<lparr>commandError := CE_PARKED\<rparr>))
             else if c1 = CHR ''d'' then
               (if gotoState m = GS_NONE \<and> guideState m = GU_NONE
                then (m\<lparr>trackingState := TS_NONE\<rparr>, io0)
                else (m, io0\<lparr>commandError := CE_MOUNT_IN_MOTION\<rparr>))
             else (m, io0\<lparr>commandError := CE_CMD_UNKNOWN\<rparr>))
      in if commandError io = CE_NONE then
           (let io = (if c1 \<in> {CHR ''S'', CHR ''K'', CHR ''L'', CHR ''Q'', CHR ''+'', CHR ''-'', CHR ''R''}
                      then io\<lparr>numericReply := False\<rparr> else io);
                m = (if c1 \<in> {CHR ''o'', CHR ''r'', CHR ''n''}
                     then m\<lparr>trackingRate := hzToSidereal SIDEREAL_RATE_HZ\<rparr> else m)
            in (updateTrackingRates m, io))
         else (m, io))"

text \<open>\<^verbatim>\<open>:$BD[n]#\<close> and \<^verbatim>\<open>:$BR[n]#\<close> set the backlash of axis 2 and axis 1 in arc-seconds;
  the number starts at \<^verbatim>\<open>parameter[1]\<close>.\<close>

definition command_set_B :: "Convert \<Rightarrow> Mount \<Rightarrow> CommandIO \<Rightarrow> string \<Rightarrow> Mount \<times> CommandIO" where
  "command_set_B conv m io ps =
     (case atoi2 conv (drop 1 ps) of
        Some arcSecs \<Rightarrow>
          if arcSecs \<ge> 0 \<and> arcSecs \<le> 3600 then
            (if char_at ps 0 = CHR ''D''
             then (m\<lparr>axis2 := setBacklash (axis2 m) (arcsecToRad (long_to_double arcSecs))\<rparr>, io)
             else if char_at ps 0 = CHR ''R''
             then (m\<lparr>axis1 := setBacklash (axis1 m) (arcsecToRad (long_to_double arcSecs))\<rparr>, io)
             else (m, io\<lparr>commandError := CE_CMD_UNKNOWN\<rparr>))
          else (m, io\<lparr>commandError := CE_PARAM_RANGE\<rparr>)
      | None \<Rightarrow> (m, io\<lparr>commandError := CE_PARAM_FORM\<rparr>))"

text \<open>\<^verbatim>\<open>:%BD#\<close> and \<^verbatim>\<open>:%BR#\<close> read the backlash in arc-seconds. Both branches call
  \<^verbatim>\<open>axis2.getBacklash()\<close>.\<close>

definition command_get_B :: "Mount \<Rightarrow> CommandIO \<Rightarrow> string \<Rightarrow> Mount \<times> CommandIO" where
  "command_get_B m io ps =
     (if char_at ps 0 = CHR ''D'' \<and> char_at ps 1 = CHR 0x00 then
        (let arcSec = double_to_long (radToArcsec (getBacklash (axis2 m)));
             arcSec = (if arcSec < 0 then 0 else arcSec);
             arcSec = (if arcSec > 3600 then 3600 else arcSec)
         in (m, io\<lparr>reply := sprintf_d arcSec, numericReply := False\<rparr>))
      else if char_at ps 0 = CHR ''R'' \<and> char_at ps 1 = CHR 0x00 then
        (let arcSec = double_to_long (radToArcsec (getBacklash (axis2 m)));
             arcSec = (if arcSec < 0 then 0 else arcSec);
             arcSec = (if arcSec > 3600 then 3600 else arcSec)
         in (m, io\<lparr>reply := sprintf_d arcSec, numericReply := False\<rparr>))
      else (m, io\<lparr>commandError := CE_CMD_UNKNOWN\<rparr>))"

text \<open>
  \<^verbatim>\<open>Mount::command\<close>: the handlers are tried in the order of the source. The result is
  \<open>None\<close> where the source runs a handler that is not modelled (sync, goto, the readers of
  coordinates and status, \<^verbatim>\<open>:ST\<close>, \<^verbatim>\<open>:VS\<close>: they call collaborators that are not under
  \<^verbatim>\<open>src/\<close>); otherwise it is the return value with the state and the result parameters
  left behind. The handler of \<^verbatim>\<open>:So\<close> tests \<^verbatim>\<open>command[1]\<close> alone.
\<close>

definition command ::
  "Convert \<Rightarrow> Mount \<Rightarrow> CommandIO \<Rightarrow> string \<Rightarrow> string \<Rightarrow> (bool \<times> Mount \<times> CommandIO) option" where
  "command conv m io cs ps =
     (if cmd cs ps ''CS'' \<or> cmd cs ps ''CM'' then None
      else if cmd cs ps ''MS'' then None
      else if cmdH cs ps ''GA'' then None
      else if cmdH cs ps ''Ga'' then None
      else if cmdH cs ps ''GD'' then None
      else if cmdH cs ps ''Gd'' then None
      else if cmd cs ps ''Gh'' then Some (True, command_Gh m io)
      else if cmd cs ps ''Go'' then Some (True, command_Go m io)
      else if cmdH cs ps ''GR'' then None
      else if cmdH cs ps ''Gr'' then None
      else if cmd cs ps ''GT'' then None
      else if cmd cs ps ''GU'' then None
      else if cmd cs ps ''Gu'' then None
      else if cmdP cs ''GX'' \<and> char_at ps 0 = CHR ''9'' then None
      else if cmdP cs ''GX'' \<and> char_at ps 0 = CHR ''E'' then None
      else if cmdH cs ps ''GZ'' then None
      else if cmdH cs ps ''Gz'' then None
      else if cmdP cs ''Sa'' then Some (True, command_Sa conv m io ps)
      else if cmdP cs ''Sd'' then Some (True, command_Sd conv m io ps)
      else if cmdP cs ''Sh'' then Some (True, command_Sh conv m io ps)
      else if char_at cs 1 = CHR ''o'' then Some (True, command_So conv m io ps)
      else if cmdP cs ''Sr'' then Some (True, command_Sr conv m io ps)
      else if cmdP cs ''ST'' then None
      else if cmdP cs ''Sz'' then Some (True, command_Sz conv m io ps)
      else if char_at cs 0 = CHR ''T'' \<and> char_at ps 0 = CHR 0x00
        then Some (True, command_T m io (char_at cs 1))
      else if cmd cs ps ''VS'' then None
      else if cmdP cs ''$B'' then Some (True, command_set_B conv m io ps)
      else if cmdP cs ''%B'' then Some (True, command_get_B m io ps)
      else Some (False, m, io))"

text \<open>
  Modelled from the spec: the error kinds of its section 7, for the values of
  \<^verbatim>\<open>CommandError\<close> (an enumeration of \<^verbatim>\<open>ProcessCmds.h\<close>, not under \<^verbatim>\<open>src/\<close>). State conflict
  is "disabling tracking while a goto or guide is in progress; resuming tracking while
  parked", the two errors of \<^verbatim>\<open>:Td#\<close> and \<^verbatim>\<open>:Te#\<close>.
\<close>

datatype ErrorKind =
    Accepted | ParameterRange | ParameterForm | CommandUnknown | StateConflict | GotoClass

fun errorKind :: "CommandError \<Rightarrow> ErrorKind" where
  "errorKind CE_NONE = Accepted"
| "errorKind CE_PARAM_RANGE = ParameterRange"
| "errorKind CE_PARAM_FORM = ParameterForm"
| "errorKind CE_CMD_UNKNOWN = CommandUnknown"
| "errorKind CE_PARKED = StateConflict"
| "errorKind CE_MOUNT_IN_MOTION = StateConflict"
| "errorKind CE_GOTO_ERR_BELOW_HORIZON = GotoClass"
| "errorKind CE_GOTO_ERR_UNSPECIFIED = GotoClass"


section \<open>Concrete states\<close>

text \<open>An axis at rest at step 0 with 1000 steps per measure and 50 steps of backlash to
  take up: the axis of the specification's scenario A.\<close>

definition scenarioA_axis :: Axis where
  "scenarioA_axis =
     \<lparr>Pins_enable = OFF, invertStep = False, invertDir = False, invertEnabled = False,
      enabled = False, tracking = False, spm = Fin 1000, target = Fin 0, originSteps = 0,
      targetSteps = 0, motorSteps = 0, indexSteps = 0, trackingStep = 1, step = 1,
      stepGoto = 1, backlashSteps = 0, backlashAmountSteps = 50, minSteps = 0, maxSteps = 0,
      maxFreq = Fin 0, minPeriodMicros = Fin 0, lastPeriod = 0, takeStep = False,
      dirFwd = False, microstepModeControl = MMC_OTHER, stepPin = LOW, dirPin = LOW,
      enablePin = LOW, taskPeriod = 0\<rparr>"

text \<open>
  Modelled from the spec: \<^verbatim>\<open>Convert::atoi2\<close> is not under \<^verbatim>\<open>src/\<close>. For evaluating
  commands it is taken as the parser of a decimal integer with an optional sign that fits
  \<^verbatim>\<open>int16_t\<close>; any other text "could not be parsed as the expected numeric format".
\<close>

definition digit_value :: "char \<Rightarrow> nat option" where
  "digit_value c = map_of (zip ''0123456789'' [0, 1, 2, 3, 4, 5, 6, 7, 8, 9]) c"

fun parse_digits :: "string \<Rightarrow> nat \<Rightarrow> nat option" where
  "parse_digits [] acc = Some acc"
| "parse_digits (c # cs) acc =
     (case digit_value c of None \<Rightarrow> None | Some v \<Rightarrow> parse_digits cs (10 * acc + v))"

definition decimal_atoi2 :: "string \<Rightarrow> int option" where
  "decimal_atoi2 s =
     (let (neg, ds) =
            (case s of
               [] \<Rightarrow> (False, [])
             | c # cs \<Rightarrow> if c = CHR ''-'' then (True, cs)
                         else if c = CHR ''+'' then (False, cs) else (False, s))
      in if ds = [] then None
         else case parse_digits ds 0 of
                None \<Rightarrow> None
              | Some n \<Rightarrow>
                  (let v = (if neg then - int n else int n)
                   in if - 32768 \<le> v \<and> v \<le> 32767 then Some v else None))"

text \<open>A value for \<^verbatim>\<open>convert\<close> in evaluations: \<open>decimal_atoi2\<close>, and parsers of degrees and
  hours that reject their parameter and leave the value behind the pointer alone.\<close>

definition decimal_convert :: Convert where
  "decimal_convert =
     \<lparr>atoi2 = decimal_atoi2,
      dmsToDouble = (\<lambda>old ps sgn. (False, old)),
      hmsToDouble = (\<lambda>old ps. (False, old))\<rparr>"

text \<open>An axis with ten steps per arc-second, at rest at step 0.\<close>

definition arcsec_axis :: Axis where
  "arcsec_axis =
     \<lparr>Pins_enable = OFF, invertStep = False, invertDir = False, invertEnabled = False,
      enabled = False, tracking = False, spm = Fin 2062648.062470963, target = Fin 0,
      originSteps = 0, targetSteps = 0, motorSteps = 0, indexSteps = 0, trackingStep = 1,
      step = 1, stepGoto = 1, backlashSteps = 0, backlashAmountSteps = 0, minSteps = 0,
      maxSteps = 0, maxFreq = Fin 0, minPeriodMicros = Fin 0, lastPeriod = 0,
      takeStep = False, dirFwd = False, microstepModeControl = MMC_OTHER, stepPin = LOW,
      dirPin = LOW, enablePin = LOW, taskPeriod = 0\<rparr>"

text \<open>A mount of a given type that tracks at the sidereal rate with no compensation, no
  goto, guide or park in progress, and both axes as above.\<close>

definition tracking_mount :: "MountType \<Rightarrow> Mount" where
  "tracking_mount t =
     \<lparr>mountType = t, trackingState = TS_SIDEREAL, gotoState = GS_NONE,
      parkState = PS_UNPARKED, guideState = GU_NONE, rateCompensation = RC_NONE,
      trackingRate = Fin 1, trackingRateAxis1 = Fin 1, trackingRateAxis2 = Fin 0,
      guideRateAxis1 = Fin 0, guideRateAxis2 = Fin 0, deltaRateAxis1 = Fin 0,
      deltaRateAxis2 = Fin 0,
      gotoTarget = \<lparr>coord_r = Fin 0, coord_d = Fin 0, coord_a = Fin 1, coord_z = Fin 0\<rparr>,
      limits = \<lparr>minAltitude = Fin 0, maxAltitude = Fin 1\<rparr>,
      axis1 = arcsec_axis, axis2 = arcsec_axis, clockPeriodSubMicros = 15956313,
      generalErrors = \<lparr>altitudeMin = False, limitSense = False, decMinMax = False,
        azmMinMax = False, raMinMax = False, raMeridian = False, sync = False,
        altitudeMax = False, park = False\<rparr>\<rparr>"

text \<open>The result parameters as a caller hands them in: no error yet.\<close>

definition fresh_io :: CommandIO where
  "fresh_io = \<lparr>reply = [], supressFrame = False, numericReply = True, commandError = CE_NONE\<rparr>"


section \<open>The backlash bound\<close>

lemma move_backlash_bounded:
  "step a = 1 \<Longrightarrow> backlash_bounded a \<Longrightarrow> backlash_bounded (move a)"
  by (simp add: move_def backlash_bounded_def Let_def)

lemma move_step: "step (move a) = step a"
  by (simp add: move_def Let_def)

lemma axis_event_step: "step (axis_event a e) = step a"
  by (cases e)
    (simp_all add: move_step setTargetCoordinate_def moveTargetCoordinate_def
      setTracking_def Let_def)

lemma axis_event_backlash_bounded:
  "step a = 1 \<Longrightarrow> backlash_bounded a \<Longrightarrow> backlash_bounded (axis_event a e)"
proof (cases e)
  case Tick
  assume "step a = 1" "backlash_bounded a"
  with Tick show ?thesis by (simp add: move_backlash_bounded)
next
  case (SetTargetCoordinate v)
  assume "backlash_bounded a"
  with SetTargetCoordinate show ?thesis
    by (simp add: setTargetCoordinate_def backlash_bounded_def Let_def)
next
  case (MoveTargetCoordinate v)
  assume "backlash_bounded a"
  with MoveTargetCoordinate show ?thesis
    by (simp add: moveTargetCoordinate_def backlash_bounded_def Let_def)
next
  case (SetTracking t)
  assume "backlash_bounded a"
  with SetTracking show ?thesis
    by (simp add: setTracking_def backlash_bounded_def)
qed

lemma axis_run_backlash_bounded:
  "step a = 1 \<Longrightarrow> backlash_bounded a \<Longrightarrow> backlash_bounded (axis_run a es)"
proof (induction es arbitrary: a)
  case Nil
  then show ?case by simp
next
  case (Cons e es)
  have "step (axis_event a e) = 1"
    using Cons.prems(1) by (simp add: axis_event_step)
  moreover have "backlash_bounded (axis_event a e)"
    using Cons.prems by (rule axis_event_backlash_bounded)
  ultimately show ?case
    using Cons.IH by simp
qed

text \<open>
  Claim C1. From every axis state with \<open>0 \<le> backlashSteps \<le> backlashAmountSteps\<close>, one
  call of \<^verbatim>\<open>Axis::move\<close> keeps the bound, and so does every sequence of generator ticks
  interleaved with changes of the target (\<^verbatim>\<open>setTargetCoordinate\<close>,
  \<^verbatim>\<open>moveTargetCoordinate\<close>) and of tracking (\<^verbatim>\<open>setTracking\<close>); since the sequence is
  arbitrary, the bound holds after each of its ticks. The member \<open>step\<close> is the constant 1
  of the data model (its initial value is in \<^verbatim>\<open>Axis.h\<close>, which is not under \<^verbatim>\<open>src/\<close>, and
  nothing in \<^verbatim>\<open>Axis.cpp\<close> assigns it).
\<close>

theorem C1_backlash_bound:
  assumes "step a = 1"
    and "0 \<le> backlashSteps a" and "backlashSteps a \<le> backlashAmountSteps a"
  shows "(0 \<le> backlashSteps (move a) \<and> backlashSteps (move a) \<le> backlashAmountSteps (move a))
       \<and> (0 \<le> backlashSteps (axis_run a es) \<and>
          backlashSteps (axis_run a es) \<le> backlashAmountSteps (axis_run a es))"
  using assms move_backlash_bounded[of a] axis_run_backlash_bounded[of a es]
  by (simp add: backlash_bounded_def)

theorem C1_backlash_bound_witness:
  "step scenarioA_axis = 1 \<and> 0 \<le> backlashSteps scenarioA_axis
   \<and> backlashSteps scenarioA_axis \<le> backlashAmountSteps scenarioA_axis
   \<and> 0 \<le> backlashSteps (move scenarioA_axis)
   \<and> backlashSteps (move scenarioA_axis) \<le> backlashAmountSteps (move scenarioA_axis)
   \<and> 0 \<le> backlashSteps (axis_run scenarioA_axis
              [SetTargetCoordinate (Fin 3), Tick, Tick, SetTracking True, Tick, Tick,
               MoveTargetCoordinate (Fin (- 5)), Tick, Tick])
   \<and> backlashSteps (axis_run scenarioA_axis
              [SetTargetCoordinate (Fin 3), Tick, Tick, SetTracking True, Tick, Tick,
               MoveTargetCoordinate (Fin (- 5)), Tick, Tick]) \<le> 50"
proof -
  have h: "step scenarioA_axis = 1" "0 \<le> backlashSteps scenarioA_axis"
    "backlashSteps scenarioA_axis \<le> backlashAmountSteps scenarioA_axis"
    by (simp_all add: scenarioA_axis_def)
  have run: "backlashAmountSteps (axis_run scenarioA_axis
              [SetTargetCoordinate (Fin 3), Tick, Tick, SetTracking True, Tick, Tick,
               MoveTargetCoordinate (Fin (- 5)), Tick, Tick]) = 50"
    by (simp add: scenarioA_axis_def setTargetCoordinate_def moveTargetCoordinate_def
        setTracking_def move_def Let_def)
  show ?thesis
    using h run
      C1_backlash_bound [OF h, of "[SetTargetCoordinate (Fin 3), Tick, Tick, SetTracking True,
        Tick, Tick, MoveTargetCoordinate (Fin (- 5)), Tick, Tick]"]
    by simp
qed


section \<open>Convergence of the generator\<close>

lemma ticks_add: "ticks (m + n) a = ticks n (ticks m a)"
  by (induction m arbitrary: a) simp_all

lemma ticks_Suc_move: "ticks (Suc n) a = move (ticks n a)"
  using ticks_add[of n 1 a] by simp

lemma move_steady: "steady a \<Longrightarrow> steady (move a)"
  by (simp add: steady_def move_def Let_def)

lemma move_target: "\<not> tracking a \<Longrightarrow> targetSteps (move a) = targetSteps a"
  by (simp add: move_def Let_def)

lemma move_invertStep: "invertStep (move a) = invertStep a"
  by (simp add: move_def Let_def)

lemma move_takeStep: "takeStep (move a) = (\<not> takeStep a)"
  by (simp add: move_def Let_def)

lemma move_error_le: "steady a \<Longrightarrow> position_error (move a) \<le> position_error a"
  by (simp add: steady_def move_def position_error_def Let_def)

lemma move_error_phaseA:
  "steady a \<Longrightarrow> takeStep a \<Longrightarrow> 0 < position_error a \<Longrightarrow>
   position_error (move a) = position_error a - 1"
  by (simp add: steady_def move_def position_error_def Let_def)

lemma move_error_phaseB:
  "\<not> takeStep a \<Longrightarrow> position_error (move a) = position_error a"
  by (simp add: move_def position_error_def Let_def)

lemma move_move_error:
  assumes "steady a" "0 < position_error a"
  shows "position_error (move (move a)) = position_error a - 1"
proof (cases "takeStep a")
  case True
  then have "position_error (move a) = position_error a - 1"
    using assms by (simp add: move_error_phaseA)
  moreover have "\<not> takeStep (move a)" using True by (simp add: move_takeStep)
  ultimately show ?thesis by (simp add: move_error_phaseB)
next
  case False
  then have e: "position_error (move a) = position_error a"
    by (simp add: move_error_phaseB)
  have "takeStep (move a)" using False by (simp add: move_takeStep)
  then show ?thesis
    using move_error_phaseA[of "move a"] move_steady[OF assms(1)] assms(2) e by simp
qed

lemma position_error_nonneg: "0 \<le> position_error a"
  by (simp add: position_error_def)

lemma ticks_steady: "steady a \<Longrightarrow> steady (ticks n a)"
  by (induction n arbitrary: a) (simp_all add: move_steady)

lemma ticks_target: "steady a \<Longrightarrow> targetSteps (ticks n a) = targetSteps a"
proof (induction n arbitrary: a)
  case 0
  then show ?case by simp
next
  case (Suc n)
  have "targetSteps (ticks n (move a)) = targetSteps (move a)"
    using Suc.prems by (intro Suc.IH move_steady)
  then show ?case using Suc.prems by (simp add: move_target steady_def)
qed

lemma ticks_invertStep: "invertStep (ticks n a) = invertStep a"
  by (induction n arbitrary: a) (simp_all add: move_invertStep)

lemma ticks_error_mono:
  "steady a \<Longrightarrow> position_error (ticks (Suc n) a) \<le> position_error (ticks n a)"
  unfolding ticks_Suc_move by (rule move_error_le) (rule ticks_steady)

lemma ticks_error_zero:
  "steady a \<Longrightarrow> position_error a = 0 \<Longrightarrow> position_error (ticks n a) = 0"
proof (induction n arbitrary: a)
  case 0
  then show ?case by simp
next
  case (Suc n)
  have "position_error (move a) = 0"
    using move_error_le[OF Suc.prems(1)] Suc.prems(2) position_error_nonneg[of "move a"] by simp
  then show ?case
    using Suc.IH[of "move a"] move_steady[OF Suc.prems(1)] by simp
qed

lemma ticks_reach:
  "steady a \<Longrightarrow> position_error a = int d \<Longrightarrow> position_error (ticks (2 * d) a) = 0"
proof (induction d arbitrary: a)
  case 0
  then show ?case by simp
next
  case (Suc d)
  have "position_error (move (move a)) = int d"
    using move_move_error[OF Suc.prems(1)] Suc.prems(2) by simp
  moreover have "steady (move (move a))"
    using Suc.prems(1) by (simp add: move_steady)
  ultimately have "position_error (ticks (2 * d) (move (move a))) = 0"
    by (rule Suc.IH[rotated])
  then show ?case by simp
qed

lemma move_idle_phaseB: "\<not> takeStep a \<Longrightarrow> stepPin (move a) = step_idle a"
  by (simp add: move_def step_idle_def Let_def)

lemma move_idle_at_target:
  "position_error a = 0 \<Longrightarrow> \<not> tracking a \<Longrightarrow> stepPin a = step_idle a \<Longrightarrow> stepPin (move a) = step_idle a"
  by (simp add: move_def step_idle_def position_error_def Let_def)

lemma move_move_idle:
  assumes "steady a" "position_error a = 0"
  shows "stepPin (move (move a)) = step_idle a"
proof (cases "takeStep a")
  case True
  then have "\<not> takeStep (move a)" by (simp add: move_takeStep)
  then show ?thesis
    using move_idle_phaseB[of "move a"] by (simp add: step_idle_def move_invertStep)
next
  case False
  then have 1: "stepPin (move a) = step_idle (move a)"
    by (simp add: move_idle_phaseB step_idle_def move_invertStep)
  have 2: "position_error (move a) = 0"
    using ticks_error_zero[OF assms, of 1] by simp
  have 3: "\<not> tracking (move a)" using move_steady[OF assms(1)] by (simp add: steady_def)
  show ?thesis using move_idle_at_target[OF 2 3 1] by (simp add: step_idle_def move_invertStep)
qed

lemma ticks_idle:
  "steady a \<Longrightarrow> position_error a = 0 \<Longrightarrow> stepPin a = step_idle a \<Longrightarrow>
   stepPin (ticks n a) = step_idle a"
proof (induction n arbitrary: a)
  case 0
  then show ?case by simp
next
  case (Suc n)
  have 1: "steady (move a)" using Suc.prems(1) by (rule move_steady)
  have 2: "position_error (move a) = 0"
    using ticks_error_zero[OF Suc.prems(1,2), of 1] by simp
  have 3: "stepPin (move a) = step_idle (move a)"
    using move_idle_at_target[OF Suc.prems(2) _ Suc.prems(3)] Suc.prems(1)
    by (simp add: steady_def step_idle_def move_invertStep)
  show ?case using Suc.IH[OF 1 2 3] by (simp add: step_idle_def move_invertStep)
qed

lemma ticks_settled:
  assumes "steady a" and n: "2 * nat (position_error a) + 2 \<le> n"
  shows "position_error (ticks n a) = 0 \<and> stepPin (ticks n a) = step_idle a"
proof -
  define d where "d = nat (position_error a)"
  define b where "b = ticks (2 * d) a"
  define c where "c = move (move b)"
  have pe: "position_error a = int d"
    by (simp add: d_def position_error_nonneg)
  have b0: "position_error b = 0" unfolding b_def using assms(1) pe by (rule ticks_reach)
  have bs: "steady b" unfolding b_def using assms(1) by (rule ticks_steady)
  have cs: "steady c" unfolding c_def using bs by (simp add: move_steady)
  have c0: "position_error c = 0"
    using ticks_error_zero[OF bs b0, of 2] by (simp add: c_def numeral_2_eq_2)
  have ci: "stepPin c = step_idle c"
    using move_move_idle[OF bs b0] by (simp add: c_def step_idle_def move_invertStep)
  have cinv: "step_idle c = step_idle a"
    by (simp add: c_def b_def step_idle_def move_invertStep ticks_invertStep)
  obtain k where k: "n = 2 * d + 2 + k"
    using n le_Suc_ex unfolding d_def by blast
  have "ticks n a = ticks k c"
    unfolding k c_def b_def
    using ticks_add[of "2 * d + 2" k a] ticks_add[of "2 * d" 2 a]
    by (simp add: numeral_2_eq_2)
  then show ?thesis
    using ticks_error_zero[OF cs c0, of k] ticks_idle[OF cs c0 ci, of k] cinv by simp
qed


lemma move_backlashAmountSteps: "backlashAmountSteps (move a) = backlashAmountSteps a"
  by (simp add: move_def Let_def)

lemma move_forward_run: "forward_run m0 t a \<Longrightarrow> forward_run m0 t (move a)"
  by (auto simp add: forward_run_def move_def Let_def)

lemma ticks_forward_run: "forward_run m0 t a \<Longrightarrow> forward_run m0 t (ticks n a)"
  by (induction n arbitrary: a) (simp_all add: move_forward_run)

lemma ticks_backlashAmountSteps: "backlashAmountSteps (ticks n a) = backlashAmountSteps a"
  by (induction n arbitrary: a) (simp_all add: move_backlashAmountSteps)

lemma setTargetCoordinate_200:
  "spm a = Fin 1000 \<Longrightarrow> indexSteps a = 0 \<Longrightarrow>
   targetSteps (setTargetCoordinate a (Fin (1 / 5))) = 200"
  by (simp add: setTargetCoordinate_def Let_def)

lemma scenarioA:
  assumes "step a = 1" "\<not> tracking a" "spm a = Fin 1000" "indexSteps a = 0"
    "motorSteps a = 0" "backlashSteps a = 0" "backlashAmountSteps a = 50" "402 \<le> n"
  defines "b \<equiv> ticks n (setTargetCoordinate a (Fin (1 / 5)))"
  shows "motorSteps b = 150 \<and> backlashSteps b = 50 \<and> nearTarget b"
proof -
  let ?s = "setTargetCoordinate a (Fin (1 / 5))"
  have t: "targetSteps ?s = 200" using assms(3,4) by (rule setTargetCoordinate_200)
  have f: "forward_run 0 200 ?s"
    using assms(1,2,5,6,7) t by (simp add: forward_run_def) (simp add: setTargetCoordinate_def Let_def)
  have st: "steady ?s" using f by (simp add: forward_run_def steady_def)
  have pe: "position_error ?s = 200"
    using t assms(5,6) by (simp add: position_error_def) (simp add: setTargetCoordinate_def Let_def)
  have "2 * nat (position_error ?s) + 2 \<le> n" using pe assms(8) by simp
  from ticks_settled[OF st this] have z: "position_error b = 0" by (simp add: b_def)
  have fb: "forward_run 0 200 b" unfolding b_def using f by (rule ticks_forward_run)
  have am: "backlashAmountSteps b = 50"
    unfolding b_def by (simp add: ticks_backlashAmountSteps) (simp add: setTargetCoordinate_def Let_def assms(7))
  from fb z am show ?thesis
    by (auto simp add: forward_run_def position_error_def nearTarget_def)
qed

text \<open>
  Claim C2. With tracking disabled and the target held fixed (no call but
  \<^verbatim>\<open>Axis::move\<close> touches the axis), each call leaves the target alone and never
  increases \<open>\<bar>motorSteps + backlashSteps - targetSteps\<bar>\<close>; after at most twice that distance
  plus two calls the distance is 0 and the step pin rests at its idle level for good, so it
  toggles no more. Scenario A: an axis with 1000 steps per measure, 50 steps of backlash,
  at motor step 0 with no backlash taken up, whose target is set to step 200 (0.2 measures),
  stands at \<open>motorSteps = 150\<close>, \<open>backlashSteps = 50\<close> with \<open>nearTarget\<close> true after 402 calls
  and any number more. The member \<open>step\<close> is the constant 1 of the data model.
\<close>

theorem C2_convergence:
  assumes "step a = 1" and "\<not> tracking a"
  shows "(\<forall>n. targetSteps (ticks n a) = targetSteps a
            \<and> position_error (ticks (Suc n) a) \<le> position_error (ticks n a))
       \<and> (\<forall>n. 2 * nat (position_error a) + 2 \<le> n \<longrightarrow>
            position_error (ticks n a) = 0 \<and> stepPin (ticks n a) = step_idle a)
       \<and> (spm a = Fin 1000 \<and> indexSteps a = 0 \<and> motorSteps a = 0 \<and> backlashSteps a = 0
            \<and> backlashAmountSteps a = 50 \<longrightarrow>
          (\<forall>n. 402 \<le> n \<longrightarrow>
             motorSteps (ticks n (setTargetCoordinate a (Fin (1 / 5)))) = 150
             \<and> backlashSteps (ticks n (setTargetCoordinate a (Fin (1 / 5)))) = 50
             \<and> nearTarget (ticks n (setTargetCoordinate a (Fin (1 / 5))))))"
proof -
  have st: "steady a" using assms by (simp add: steady_def)
  have 1: "\<forall>n. targetSteps (ticks n a) = targetSteps a
            \<and> position_error (ticks (Suc n) a) \<le> position_error (ticks n a)"
    using ticks_target[OF st] ticks_error_mono[OF st] by blast
  have 2: "\<forall>n. 2 * nat (position_error a) + 2 \<le> n \<longrightarrow>
            position_error (ticks n a) = 0 \<and> stepPin (ticks n a) = step_idle a"
    using ticks_settled[OF st] by blast
  have 3: "spm a = Fin 1000 \<and> indexSteps a = 0 \<and> motorSteps a = 0 \<and> backlashSteps a = 0
            \<and> backlashAmountSteps a = 50 \<longrightarrow>
          (\<forall>n. 402 \<le> n \<longrightarrow>
             motorSteps (ticks n (setTargetCoordinate a (Fin (1 / 5)))) = 150
             \<and> backlashSteps (ticks n (setTargetCoordinate a (Fin (1 / 5)))) = 50
             \<and> nearTarget (ticks n (setTargetCoordinate a (Fin (1 / 5)))))"
    using scenarioA[OF assms] by blast
  from 1 2 3 show ?thesis by blast
qed

theorem C2_convergence_witness:
  "step scenarioA_axis = 1 \<and> \<not> tracking scenarioA_axis
   \<and> position_error (ticks 3 scenarioA_axis) \<le> position_error (ticks 2 scenarioA_axis)
   \<and> position_error (ticks 2 scenarioA_axis) = 0 \<and> stepPin (ticks 2 scenarioA_axis) = LOW
   \<and> motorSteps (ticks 402 (setTargetCoordinate scenarioA_axis (Fin (1 / 5)))) = 150
   \<and> backlashSteps (ticks 402 (setTargetCoordinate scenarioA_axis (Fin (1 / 5)))) = 50
   \<and> nearTarget (ticks 402 (setTargetCoordinate scenarioA_axis (Fin (1 / 5))))"
proof -
  have h: "step scenarioA_axis = 1" "\<not> tracking scenarioA_axis"
    by (simp_all add: scenarioA_axis_def)
  note c = C2_convergence [OF h]
  have e: "position_error scenarioA_axis = 0" "step_idle scenarioA_axis = LOW"
    by (simp_all add: scenarioA_axis_def position_error_def step_idle_def)
  have s: "spm scenarioA_axis = Fin 1000 \<and> indexSteps scenarioA_axis = 0
      \<and> motorSteps scenarioA_axis = 0 \<and> backlashSteps scenarioA_axis = 0
      \<and> backlashAmountSteps scenarioA_axis = 50"
    by (simp add: scenarioA_axis_def)
  from c have "position_error (ticks (Suc 2) scenarioA_axis) \<le> position_error (ticks 2 scenarioA_axis)"
    by blast
  moreover from c e have "position_error (ticks 2 scenarioA_axis) = 0 \<and> stepPin (ticks 2 scenarioA_axis) = LOW"
    by simp
  moreover from c s have "motorSteps (ticks 402 (setTargetCoordinate scenarioA_axis (Fin (1 / 5)))) = 150
   \<and> backlashSteps (ticks 402 (setTargetCoordinate scenarioA_axis (Fin (1 / 5)))) = 50
   \<and> nearTarget (ticks 402 (setTargetCoordinate scenarioA_axis (Fin (1 / 5))))"
    by simp
  ultimately show ?thesis using h by (simp add: numeral_3_eq_3)
qed


section \<open>Frequency to period\<close>

lemma guard_accepts_iff:
  "(\<not> isnan d \<and> dle (fabs d) (Fin 134000000)) \<longleftrightarrow>
   (isfinite d \<and> dle (fabs d) (Fin 134000000))"
  by (cases d) (simp_all add: isnan_def)

lemma guard_rejects_iff:
  "\<not> (\<not> isnan d \<and> dle (fabs d) (Fin 134000000)) \<longleftrightarrow>
   (\<not> isfinite d \<or> dlt (Fin 134000000) (fabs d))"
  by (cases d) (auto simp add: isnan_def)

text \<open>\<^verbatim>\<open>Axis::setFrequency\<close> in terms of the quotient \<open>q\<close> and the clamped, halved value \<open>d\<close>.\<close>

lemma setFrequency_cases:
  assumes "q = ddiv (Fin 1000000) (dmul f (spm a))"
    and "d = ddiv (if dlt q (minPeriodMicros a) then minPeriodMicros a else q) (Fin 2)"
  shows "setFrequency clk a f =
     (if \<not> isnan d \<and> dle (fabs d) (Fin 134000000)
      then a\<lparr>lastPeriod := long_to_ulong (lround (dmul d (Fin 16))),
             taskPeriod := long_to_ulong (lround (dmul (dmul d (Fin 16))
               (ddiv SIDEREAL_PERIOD (ulong_to_double clk))))\<rparr>
      else a\<lparr>lastPeriod := 0, taskPeriod := 0\<rparr>)"
  unfolding assms by (simp add: setFrequency_def Let_def long_to_ulong_def)

lemma getFrequency_stationary:
  "lastPeriod a = 0 \<Longrightarrow> \<not> is_zero (spm a) \<Longrightarrow> \<not> isnan (spm a) \<Longrightarrow>
   deq (getFrequency a) (Fin 0)"
proof (cases "spm a")
  case (Fin s)
  assume "lastPeriod a = 0" "\<not> is_zero (spm a)"
  with Fin show ?thesis
    by (cases "s < 0") (simp_all add: getFrequency_def getFrequencySteps_def)
qed (simp_all add: getFrequency_def getFrequencySteps_def isnan_def)

text \<open>
  Claim C3, as stated, fails in "getFrequency returns 0": it returns 0 divided by the
  steps per measure. On an axis with 0 steps per measure and the frequency 1 the quotient
  is \<open>1e6 / 0\<close>, the clamped and halved value is infinite, the periods are set to 0, and
  \<^verbatim>\<open>getFrequency\<close> returns \<open>0 / 0\<close>, which is NaN and does not compare equal to 0.
\<close>

theorem C3_counterexample:
  "ddiv (if dlt (ddiv (Fin 1000000) (dmul (Fin 1) (spm (scenarioA_axis\<lparr>spm := Fin 0\<rparr>))))
              (minPeriodMicros (scenarioA_axis\<lparr>spm := Fin 0\<rparr>))
         then minPeriodMicros (scenarioA_axis\<lparr>spm := Fin 0\<rparr>)
         else ddiv (Fin 1000000) (dmul (Fin 1) (spm (scenarioA_axis\<lparr>spm := Fin 0\<rparr>))))
        (Fin 2) = PInf
   \<and> lastPeriod (setFrequency 15956313 (scenarioA_axis\<lparr>spm := Fin 0\<rparr>) (Fin 1)) = 0
   \<and> taskPeriod (setFrequency 15956313 (scenarioA_axis\<lparr>spm := Fin 0\<rparr>) (Fin 1)) = 0
   \<and> getFrequency (setFrequency 15956313 (scenarioA_axis\<lparr>spm := Fin 0\<rparr>) (Fin 1)) = NaN
   \<and> \<not> deq (getFrequency (setFrequency 15956313 (scenarioA_axis\<lparr>spm := Fin 0\<rparr>) (Fin 1))) (Fin 0)"
  by (simp add: setFrequency_def getFrequency_def getFrequencySteps_def scenarioA_axis_def
      Let_def  isnan_def long_to_ulong_def)

text \<open>
  Claim C3, amended. Let \<open>q\<close> be \<open>1e6 / (frequency * spm)\<close> and \<open>d\<close> be \<open>q\<close>, replaced by
  \<open>minPeriodMicros\<close> where it is below it, halved. If \<open>d\<close> is not finite (an infinity or NaN)
  or exceeds 134,000,000 in magnitude, then \<open>lastPeriod\<close> and the period given to the task
  are 0 and \<^verbatim>\<open>getFrequencySteps\<close> returns 0; \<^verbatim>\<open>getFrequency\<close> then returns a value equal to
  0 on an axis whose steps per measure are neither zero nor NaN. Otherwise \<open>lastPeriod\<close> is
  \<open>d\<close> times 16, rounded, and the period given to the task is \<open>d\<close> times 16 times the ratio
  of \<^verbatim>\<open>SIDEREAL_PERIOD\<close> to the period of the clock, rounded.
\<close>

theorem C3_setFrequency:
  assumes "q = ddiv (Fin 1000000) (dmul f (spm a))"
    and "d = ddiv (if dlt q (minPeriodMicros a) then minPeriodMicros a else q) (Fin 2)"
  shows "(\<not> isfinite d \<or> dlt (Fin 134000000) (fabs d) \<longrightarrow>
            lastPeriod (setFrequency clk a f) = 0 \<and> taskPeriod (setFrequency clk a f) = 0
            \<and> getFrequencySteps (setFrequency clk a f) = Fin 0
            \<and> (\<not> is_zero (spm a) \<and> \<not> isnan (spm a) \<longrightarrow>
                 deq (getFrequency (setFrequency clk a f)) (Fin 0)))
       \<and> (isfinite d \<and> dle (fabs d) (Fin 134000000) \<longrightarrow>
            lastPeriod (setFrequency clk a f) = long_to_ulong (lround (dmul d (Fin 16)))
            \<and> taskPeriod (setFrequency clk a f)
                = long_to_ulong (lround (dmul (dmul d (Fin 16))
                    (ddiv SIDEREAL_PERIOD (ulong_to_double clk)))))"
proof (intro conjI impI)
  assume r: "\<not> isfinite d \<or> dlt (Fin 134000000) (fabs d)"
  then have g: "(\<not> isnan d \<and> dle (fabs d) (Fin 134000000)) = False"
    using guard_rejects_iff [of d] by blast
  have e: "setFrequency clk a f = a\<lparr>lastPeriod := 0, taskPeriod := 0\<rparr>"
    by (simp only: setFrequency_cases [OF assms] g if_False)
  show "lastPeriod (setFrequency clk a f) = 0" by (simp add: e)
  show "taskPeriod (setFrequency clk a f) = 0" by (simp add: e)
  show "getFrequencySteps (setFrequency clk a f) = Fin 0" by (simp add: e getFrequencySteps_def)
  assume "\<not> is_zero (spm a) \<and> \<not> isnan (spm a)"
  then show "deq (getFrequency (setFrequency clk a f)) (Fin 0)"
    using getFrequency_stationary [of "setFrequency clk a f"] by (simp add: e)
next
  assume "isfinite d \<and> dle (fabs d) (Fin 134000000)"
  then have g: "(\<not> isnan d \<and> dle (fabs d) (Fin 134000000)) = True"
    using guard_accepts_iff [of d] by blast
  have e: "setFrequency clk a f =
      a\<lparr>lastPeriod := long_to_ulong (lround (dmul d (Fin 16))),
        taskPeriod := long_to_ulong (lround (dmul (dmul d (Fin 16))
          (ddiv SIDEREAL_PERIOD (ulong_to_double clk))))\<rparr>"
    by (simp only: setFrequency_cases [OF assms] g if_True)
  show "lastPeriod (setFrequency clk a f) = long_to_ulong (lround (dmul d (Fin 16)))"
    by (simp add: e)
  show "taskPeriod (setFrequency clk a f)
      = long_to_ulong (lround (dmul (dmul d (Fin 16))
          (ddiv SIDEREAL_PERIOD (ulong_to_double clk))))"
    by (simp add: e)
qed

text \<open>The clamped, halved value on the axis of scenario A: for a frequency of a millionth
  of a measure per second (scenario B), for the frequency 0, and for one measure per
  second; and on an axis that counts backwards with a floor of 100 microseconds, where the
  frequency 0 makes the product a negative zero, the quotient the negative infinity and
  the clamped value the floor.\<close>

lemma half_period_slow:
  "ddiv (if dlt (ddiv (Fin 1000000) (dmul (Fin (1 / 1000000)) (spm scenarioA_axis)))
              (minPeriodMicros scenarioA_axis)
         then minPeriodMicros scenarioA_axis
         else ddiv (Fin 1000000) (dmul (Fin (1 / 1000000)) (spm scenarioA_axis))) (Fin 2)
   = Fin 500000000"
  by (simp add: scenarioA_axis_def)

lemma half_period_zero:
  "ddiv (if dlt (ddiv (Fin 1000000) (dmul (Fin 0) (spm scenarioA_axis)))
              (minPeriodMicros scenarioA_axis)
         then minPeriodMicros scenarioA_axis
         else ddiv (Fin 1000000) (dmul (Fin 0) (spm scenarioA_axis))) (Fin 2)
   = PInf"
  by (simp add: scenarioA_axis_def )

lemma half_period_one:
  "ddiv (if dlt (ddiv (Fin 1000000) (dmul (Fin 1) (spm scenarioA_axis)))
              (minPeriodMicros scenarioA_axis)
         then minPeriodMicros scenarioA_axis
         else ddiv (Fin 1000000) (dmul (Fin 1) (spm scenarioA_axis))) (Fin 2)
   = Fin 500"
  by (simp add: scenarioA_axis_def)

lemma half_period_negative_zero:
  "ddiv (if dlt (ddiv (Fin 1000000)
                  (dmul (Fin 0) (spm (scenarioA_axis\<lparr>spm := Fin (- 1000), minPeriodMicros := Fin 100\<rparr>))))
              (minPeriodMicros (scenarioA_axis\<lparr>spm := Fin (- 1000), minPeriodMicros := Fin 100\<rparr>))
         then minPeriodMicros (scenarioA_axis\<lparr>spm := Fin (- 1000), minPeriodMicros := Fin 100\<rparr>)
         else ddiv (Fin 1000000)
                (dmul (Fin 0) (spm (scenarioA_axis\<lparr>spm := Fin (- 1000), minPeriodMicros := Fin 100\<rparr>))))
        (Fin 2)
   = Fin 50"
  by (simp add: )

lemma scaled_period_8000:
  "long_to_ulong (lround (dmul (dmul (Fin 500) (Fin 16))
     (ddiv SIDEREAL_PERIOD (ulong_to_double 15956313)))) = 8000"
  by (simp add: long_to_ulong_def SIDEREAL_PERIOD_def ulong_to_double_def)

theorem C3_setFrequency_witness:
  "lastPeriod (setFrequency 15956313 scenarioA_axis (Fin (1 / 1000000))) = 0
   \<and> taskPeriod (setFrequency 15956313 scenarioA_axis (Fin (1 / 1000000))) = 0
   \<and> deq (getFrequency (setFrequency 15956313 scenarioA_axis (Fin (1 / 1000000)))) (Fin 0)
   \<and> lastPeriod (setFrequency 15956313 scenarioA_axis (Fin 0)) = 0
   \<and> taskPeriod (setFrequency 15956313 scenarioA_axis (Fin 0)) = 0
   \<and> deq (getFrequency (setFrequency 15956313 scenarioA_axis (Fin 0))) (Fin 0)
   \<and> lastPeriod (setFrequency 15956313 scenarioA_axis (Fin 1)) = 8000
   \<and> taskPeriod (setFrequency 15956313 scenarioA_axis (Fin 1)) = 8000
   \<and> lastPeriod (setFrequency 15956313
        (scenarioA_axis\<lparr>spm := Fin (- 1000), minPeriodMicros := Fin 100\<rparr>) (Fin 0)) = 800"
proof -
  have s: "\<not> is_zero (spm scenarioA_axis) \<and> \<not> isnan (spm scenarioA_axis)"
    by (simp add: scenarioA_axis_def isnan_def)
  have a: "lastPeriod (setFrequency 15956313 scenarioA_axis (Fin (1 / 1000000))) = 0
   \<and> taskPeriod (setFrequency 15956313 scenarioA_axis (Fin (1 / 1000000))) = 0
   \<and> deq (getFrequency (setFrequency 15956313 scenarioA_axis (Fin (1 / 1000000)))) (Fin 0)"
    using C3_setFrequency [where clk = 15956313 and a = scenarioA_axis and f = "Fin (1 / 1000000)", OF refl refl] s
    by (simp add: half_period_slow)
  have b: "lastPeriod (setFrequency 15956313 scenarioA_axis (Fin 0)) = 0
   \<and> taskPeriod (setFrequency 15956313 scenarioA_axis (Fin 0)) = 0
   \<and> deq (getFrequency (setFrequency 15956313 scenarioA_axis (Fin 0))) (Fin 0)"
    using C3_setFrequency [where clk = 15956313 and a = scenarioA_axis and f = "Fin 0", OF refl refl] s
    by (simp add: half_period_zero)
  have c: "lastPeriod (setFrequency 15956313 scenarioA_axis (Fin 1)) = 8000
   \<and> taskPeriod (setFrequency 15956313 scenarioA_axis (Fin 1)) = 8000"
    using C3_setFrequency [where clk = 15956313 and a = scenarioA_axis and f = "Fin 1", OF refl refl] scaled_period_8000
    by (simp add: half_period_one long_to_ulong_def)
  have d: "lastPeriod (setFrequency 15956313
        (scenarioA_axis\<lparr>spm := Fin (- 1000), minPeriodMicros := Fin 100\<rparr>) (Fin 0)) = 800"
    using C3_setFrequency [where clk = 15956313
        and a = "scenarioA_axis\<lparr>spm := Fin (- 1000), minPeriodMicros := Fin 100\<rparr>" and f = "Fin 0",
        OF refl refl]
    by (simp add: half_period_negative_zero long_to_ulong_def)
  from a b c d show ?thesis by simp
qed


section \<open>Tracking rates\<close>

lemmas dispatch_defs = command_def cmd_def cmdH_def cmdP_def char_at_def

lemma mountType_tracking_mount: "mountType (tracking_mount t) = t"
  by (simp add: tracking_mount_def)

lemma updateTrackingRates_rates:
  "trackingRateAxis1 (updateTrackingRates m) =
     (if trackingState m = TS_NONE then Fin 0
      else if mountType m \<noteq> ALTAZM then trackingRate m else trackingRateAxis1 m)"
  "trackingRateAxis2 (updateTrackingRates m) =
     (if trackingState m = TS_NONE then Fin 0
      else if mountType m \<noteq> ALTAZM \<and> rateCompensation m \<noteq> RC_REFR_BOTH
              \<and> rateCompensation m \<noteq> RC_FULL_BOTH then Fin 0
      else trackingRateAxis2 m)"
  by (simp_all add: updateTrackingRates_def Let_def)

lemma updateTrackingRates_frame:
  "guideRateAxis1 (updateTrackingRates m) = guideRateAxis1 m"
  "guideRateAxis2 (updateTrackingRates m) = guideRateAxis2 m"
  "deltaRateAxis1 (updateTrackingRates m) = deltaRateAxis1 m"
  "deltaRateAxis2 (updateTrackingRates m) = deltaRateAxis2 m"
  "clockPeriodSubMicros (updateTrackingRates m) = clockPeriodSubMicros m"
  by (simp_all add: updateTrackingRates_def Let_def)

lemma updateTrackingRates_axes:
  "axis1 (updateTrackingRates m) =
     setFrequency (clockPeriodSubMicros m) (axis1 m)
       (siderealToRad (dadd (dadd (trackingRateAxis1 (updateTrackingRates m)) (guideRateAxis1 m))
          (deltaRateAxis1 m)))"
  "axis2 (updateTrackingRates m) =
     setFrequency (clockPeriodSubMicros m) (axis2 m)
       (siderealToRad (dadd (dadd (trackingRateAxis2 (updateTrackingRates m)) (guideRateAxis2 m))
          (deltaRateAxis2 m)))"
  by (simp_all add: updateTrackingRates_def Let_def)

text \<open>
  Claim C4, as stated, fails: on a mount that is not altazimuth with tracking off and a
  tracking rate of 1, \<^verbatim>\<open>Mount::updateTrackingRates\<close> leaves the rate of the primary axis at
  0, not at \<open>trackingRate\<close>. The assignment of \<open>trackingRate\<close> comes first and the test for
  \<^verbatim>\<open>TS_NONE\<close> overwrites it.
\<close>

theorem C4_counterexample:
  "mountType ((tracking_mount GEM)\<lparr>trackingState := TS_NONE\<rparr>) \<noteq> ALTAZM
   \<and> trackingRate ((tracking_mount GEM)\<lparr>trackingState := TS_NONE\<rparr>) = Fin 1
   \<and> trackingRateAxis1 (updateTrackingRates ((tracking_mount GEM)\<lparr>trackingState := TS_NONE\<rparr>))
       = Fin 0
   \<and> trackingRateAxis1 (updateTrackingRates ((tracking_mount GEM)\<lparr>trackingState := TS_NONE\<rparr>))
       \<noteq> trackingRate ((tracking_mount GEM)\<lparr>trackingState := TS_NONE\<rparr>)"
  by (simp add: updateTrackingRates_rates) (simp add: tracking_mount_def)

text \<open>
  Claim C4, amended. After \<^verbatim>\<open>Mount::updateTrackingRates\<close>: on a mount that is not altazimuth
  and is tracking, the rate of the primary axis is \<open>trackingRate\<close>; on a mount that is not
  altazimuth, the rate of the secondary axis is zero unless the compensation is one of the
  two dual-axis modes; with tracking off both rates are zero; and each axis has been given
  to \<^verbatim>\<open>Axis::setFrequency\<close> with the sum of its tracking, guide and delta rates, converted
  by \<^verbatim>\<open>siderealToRad\<close>.
\<close>

theorem C4_updateTrackingRates:
  "(mountType m \<noteq> ALTAZM \<and> trackingState m \<noteq> TS_NONE \<longrightarrow>
      trackingRateAxis1 (updateTrackingRates m) = trackingRate m)
   \<and> (mountType m \<noteq> ALTAZM \<and> rateCompensation m \<noteq> RC_REFR_BOTH
        \<and> rateCompensation m \<noteq> RC_FULL_BOTH \<longrightarrow>
      trackingRateAxis2 (updateTrackingRates m) = Fin 0)
   \<and> (trackingState m = TS_NONE \<longrightarrow>
      trackingRateAxis1 (updateTrackingRates m) = Fin 0
      \<and> trackingRateAxis2 (updateTrackingRates m) = Fin 0)
   \<and> axis1 (updateTrackingRates m) =
       setFrequency (clockPeriodSubMicros m) (axis1 m)
         (siderealToRad (dadd (dadd (trackingRateAxis1 (updateTrackingRates m))
            (guideRateAxis1 (updateTrackingRates m))) (deltaRateAxis1 (updateTrackingRates m))))
   \<and> axis2 (updateTrackingRates m) =
       setFrequency (clockPeriodSubMicros m) (axis2 m)
         (siderealToRad (dadd (dadd (trackingRateAxis2 (updateTrackingRates m))
            (guideRateAxis2 (updateTrackingRates m))) (deltaRateAxis2 (updateTrackingRates m))))"
  using updateTrackingRates_axes[of m]
  by (simp add: updateTrackingRates_rates updateTrackingRates_frame)

theorem C4_updateTrackingRates_witness:
  "trackingRateAxis1 (updateTrackingRates (tracking_mount GEM)) = Fin 1
   \<and> trackingRateAxis2 (updateTrackingRates (tracking_mount GEM)) = Fin 0
   \<and> trackingRateAxis1 (updateTrackingRates ((tracking_mount FORK)\<lparr>trackingState := TS_NONE\<rparr>)) = Fin 0
   \<and> trackingRateAxis2 (updateTrackingRates ((tracking_mount FORK)\<lparr>trackingState := TS_NONE\<rparr>)) = Fin 0"
proof -
  have a: "mountType (tracking_mount GEM) \<noteq> ALTAZM \<and> trackingState (tracking_mount GEM) \<noteq> TS_NONE"
    "rateCompensation (tracking_mount GEM) \<noteq> RC_REFR_BOTH \<and> rateCompensation (tracking_mount GEM) \<noteq> RC_FULL_BOTH"
    "trackingRate (tracking_mount GEM) = Fin 1"
    by (simp_all add: tracking_mount_def)
  have b: "trackingState ((tracking_mount FORK)\<lparr>trackingState := TS_NONE\<rparr>) = TS_NONE"
    by simp
  from C4_updateTrackingRates [of "tracking_mount GEM"] a
  have 1: "trackingRateAxis1 (updateTrackingRates (tracking_mount GEM)) = Fin 1
   \<and> trackingRateAxis2 (updateTrackingRates (tracking_mount GEM)) = Fin 0"
    by simp
  from C4_updateTrackingRates [of "(tracking_mount FORK)\<lparr>trackingState := TS_NONE\<rparr>"] b
  have 2: "trackingRateAxis1 (updateTrackingRates ((tracking_mount FORK)\<lparr>trackingState := TS_NONE\<rparr>)) = Fin 0
   \<and> trackingRateAxis2 (updateTrackingRates ((tracking_mount FORK)\<lparr>trackingState := TS_NONE\<rparr>)) = Fin 0"
    by blast
  from 1 2 show ?thesis by simp
qed


section \<open>Rejected commands\<close>

text \<open>
  Claim C5 does not hold of the code. \<^verbatim>\<open>:Tr#\<close> on a mount that is not altazimuth sets
  \<open>rateCompensation\<close> in the first chain of tests, then falls through the second chain to
  \<^verbatim>\<open>else *commandError = CE_CMD_UNKNOWN\<close>: the command is rejected and the state has
  changed. (\<^verbatim>\<open>:Tn#\<close> does the same; \<^verbatim>\<open>:To#\<close> is taken by the handler of \<^verbatim>\<open>:So\<close>.)
\<close>

theorem C5_rejected_Tr_mutates:
  "command decimal_convert (tracking_mount GEM) fresh_io ''Tr'' '''' =
     Some (True, (tracking_mount GEM)\<lparr>rateCompensation := RC_REFR_RA\<rparr>,
           fresh_io\<lparr>commandError := CE_CMD_UNKNOWN\<rparr>)
   \<and> rateCompensation (tracking_mount GEM) = RC_NONE"
  by (simp add: dispatch_defs command_T_def fresh_io_def Let_def mountType_tracking_mount)
     (simp add: tracking_mount_def)

text \<open>The setters of the goto target convert the value behind the pointer to radians
  also when the parser has failed.\<close>

lemma command_Sa_rejected:
  assumes "dmsToDouble conv (coord_a (gotoTarget m)) ps True = (False, v)"
  shows "command conv m io ''Sa'' ps =
     Some (True, m\<lparr>gotoTarget := (gotoTarget m)\<lparr>coord_a := degToRad v\<rparr>\<rparr>,
           io\<lparr>commandError := CE_PARAM_RANGE\<rparr>)"
  using assms by (simp add: dispatch_defs command_Sa_def)

text \<open>
  Claim C6, as stated, fails in the kind of error: on an altazimuth mount \<^verbatim>\<open>:Tr#\<close> is
  rejected with \<^verbatim>\<open>CE_CMD_UNKNOWN\<close>, which is the command-unknown kind and not a state
  conflict.
\<close>

theorem C6_counterexample:
  "mountType (tracking_mount ALTAZM) = ALTAZM
   \<and> command decimal_convert (tracking_mount ALTAZM) fresh_io ''Tr'' '''' =
       Some (True, tracking_mount ALTAZM, fresh_io\<lparr>commandError := CE_CMD_UNKNOWN\<rparr>)
   \<and> errorKind CE_CMD_UNKNOWN \<noteq> StateConflict"
  by (simp add: dispatch_defs command_T_def fresh_io_def Let_def mountType_tracking_mount)

lemma command_T_altazm:
  assumes "mountType m = ALTAZM"
  shows "command_T m io (CHR ''r'') = (m, io\<lparr>commandError := CE_CMD_UNKNOWN\<rparr>)"
    and "command_T m io (CHR ''n'') = (m, io\<lparr>commandError := CE_CMD_UNKNOWN\<rparr>)"
    and "command_T m io (CHR ''1'') = (m, io\<lparr>commandError := CE_CMD_UNKNOWN\<rparr>)"
    and "command_T m io (CHR ''2'') = (m, io\<lparr>commandError := CE_CMD_UNKNOWN\<rparr>)"
  using assms by (simp_all add: command_T_def Let_def)

lemma command_T_dispatch:
  "command conv m io ''Tr'' '''' = Some (True, command_T m io (CHR ''r''))"
  "command conv m io ''Tn'' '''' = Some (True, command_T m io (CHR ''n''))"
  "command conv m io ''T1'' '''' = Some (True, command_T m io (CHR ''1''))"
  "command conv m io ''T2'' '''' = Some (True, command_T m io (CHR ''2''))"
  by (simp_all add: dispatch_defs)

text \<open>
  Claim C6, amended. On an altazimuth mount the requests \<^verbatim>\<open>:Tr#\<close>, \<^verbatim>\<open>:Tn#\<close>, \<^verbatim>\<open>:T1#\<close> and
  \<^verbatim>\<open>:T2#\<close> are rejected with the command-unknown error and leave \<open>rateCompensation\<close>, with
  the rest of the state, as it was.
\<close>

theorem C6_altazm_rejects:
  assumes "mountType m = ALTAZM"
  shows "command conv m io ''Tr'' '''' = Some (True, m, io\<lparr>commandError := CE_CMD_UNKNOWN\<rparr>)
       \<and> command conv m io ''Tn'' '''' = Some (True, m, io\<lparr>commandError := CE_CMD_UNKNOWN\<rparr>)
       \<and> command conv m io ''T1'' '''' = Some (True, m, io\<lparr>commandError := CE_CMD_UNKNOWN\<rparr>)
       \<and> command conv m io ''T2'' '''' = Some (True, m, io\<lparr>commandError := CE_CMD_UNKNOWN\<rparr>)
       \<and> errorKind CE_CMD_UNKNOWN = CommandUnknown"
proof (intro conjI)
  show "command conv m io ''Tr'' '''' = Some (True, m, io\<lparr>commandError := CE_CMD_UNKNOWN\<rparr>)"
    by (simp only: command_T_dispatch command_T_altazm [OF assms])
  show "command conv m io ''Tn'' '''' = Some (True, m, io\<lparr>commandError := CE_CMD_UNKNOWN\<rparr>)"
    by (simp only: command_T_dispatch command_T_altazm [OF assms])
  show "command conv m io ''T1'' '''' = Some (True, m, io\<lparr>commandError := CE_CMD_UNKNOWN\<rparr>)"
    by (simp only: command_T_dispatch command_T_altazm [OF assms])
  show "command conv m io ''T2'' '''' = Some (True, m, io\<lparr>commandError := CE_CMD_UNKNOWN\<rparr>)"
    by (simp only: command_T_dispatch command_T_altazm [OF assms])
  show "errorKind CE_CMD_UNKNOWN = CommandUnknown"
    by simp
qed

theorem C6_altazm_rejects_witness:
  "mountType (tracking_mount ALTAZM) = ALTAZM
   \<and> command decimal_convert (tracking_mount ALTAZM) fresh_io ''Tn'' '''' =
       Some (True, tracking_mount ALTAZM, fresh_io\<lparr>commandError := CE_CMD_UNKNOWN\<rparr>)
   \<and> command decimal_convert (tracking_mount ALTAZM) fresh_io ''T1'' '''' =
       Some (True, tracking_mount ALTAZM, fresh_io\<lparr>commandError := CE_CMD_UNKNOWN\<rparr>)
   \<and> command decimal_convert (tracking_mount ALTAZM) fresh_io ''T2'' '''' =
       Some (True, tracking_mount ALTAZM, fresh_io\<lparr>commandError := CE_CMD_UNKNOWN\<rparr>)
   \<and> rateCompensation (tracking_mount ALTAZM) = RC_NONE"
proof -
  have h: "mountType (tracking_mount ALTAZM) = ALTAZM" by (rule mountType_tracking_mount)
  have r: "rateCompensation (tracking_mount ALTAZM) = RC_NONE"
    by (simp add: tracking_mount_def)
  note c = C6_altazm_rejects [OF h, of decimal_convert fresh_io]
  note tn = c [THEN conjunct2, THEN conjunct1]
  note t1 = c [THEN conjunct2, THEN conjunct2, THEN conjunct1]
  note t2 = c [THEN conjunct2, THEN conjunct2, THEN conjunct2, THEN conjunct1]
  from h tn t1 t2 r show ?thesis by (intro conjI)
qed


section \<open>The altitude limits\<close>

lemma atoi2_decimal_90: "atoi2 decimal_convert ''90'' = Some 90"
  by (simp add: decimal_convert_def decimal_atoi2_def digit_value_def)

lemma command_So_dispatch:
  "command conv m io ''So'' ps = Some (True, command_So conv m io ps)"
  by (simp add: dispatch_defs)

lemma command_Go_dispatch:
  "command conv m io ''Go'' '''' = Some (True, command_Go m io)"
  by (simp add: dispatch_defs)

lemma radToDeg_degToRad: "radToDeg (degToRad (Fin x)) = Fin x"
  by (simp add: radToDeg_def degToRad_def RAD_def)

lemma degToRad_90_below_87: "\<not> dlt (Fin 87) (degToRad (Fin 90))"
  by (simp add: degToRad_def RAD_def)

lemma sprintf_02ld_star_90: "sprintf_02ld_star 90 = ''90*''"
  by (simp add: sprintf_02ld_star_def digits10.simps)

text \<open>On an altazimuth mount no accepted value is clamped: the stored limit is the
  parameter in radians, at most 90 / 57.29..., which the test against 87 never exceeds.\<close>

lemma command_So_altazm_never_clamps:
  assumes "mountType m = ALTAZM" "atoi2 conv ps = Some deg" "60 \<le> deg \<and> deg \<le> 90"
  shows "command_So conv m io ps =
     (m\<lparr>limits := (limits m)\<lparr>maxAltitude := degToRad (long_to_double deg)\<rparr>\<rparr>, io)"
proof -
  have c: "(60 \<le> deg \<and> deg \<le> 90) = True" using assms(3) by simp
  have "real_of_int deg \<le> 90" using assms(3) by simp
  then have d: "dlt (Fin 87) (degToRad (long_to_double deg)) = False"
    by (simp add: degToRad_def RAD_def long_to_double_def)
  show ?thesis
    by (simp add: command_So_def assms(1,2) c d Let_def)
qed

text \<open>
  Claim C7 does not hold of the code. On an altazimuth mount \<^verbatim>\<open>:So90#\<close> is accepted and
  the overhead limit is stored as 90 degrees in radians. The clamp compares the stored
  radians with the number 87, which no accepted value exceeds, so it never fires; the
  limit read back by \<^verbatim>\<open>:Go#\<close> is 90 degrees.
\<close>

theorem C7_overhead_limit_not_clamped:
  "command decimal_convert (tracking_mount ALTAZM) fresh_io ''So'' ''90'' =
     Some (True, (tracking_mount ALTAZM)\<lparr>limits := \<lparr>minAltitude = Fin 0, maxAltitude = degToRad (Fin 90)\<rparr>\<rparr>,
           fresh_io)
   \<and> radToDeg (degToRad (Fin 90)) = Fin 90
   \<and> command decimal_convert
        ((tracking_mount ALTAZM)\<lparr>limits := \<lparr>minAltitude = Fin 0, maxAltitude = degToRad (Fin 90)\<rparr>\<rparr>)
        fresh_io ''Go'' '''' =
     Some (True, (tracking_mount ALTAZM)\<lparr>limits := \<lparr>minAltitude = Fin 0, maxAltitude = degToRad (Fin 90)\<rparr>\<rparr>,
           fresh_io\<lparr>reply := ''90*'', numericReply := False\<rparr>)"
proof (intro conjI)
  have l: "limits (tracking_mount ALTAZM) = \<lparr>minAltitude = Fin 0, maxAltitude = Fin 1\<rparr>"
    by (simp add: tracking_mount_def)
  show "command decimal_convert (tracking_mount ALTAZM) fresh_io ''So'' ''90'' =
     Some (True, (tracking_mount ALTAZM)\<lparr>limits := \<lparr>minAltitude = Fin 0, maxAltitude = degToRad (Fin 90)\<rparr>\<rparr>,
           fresh_io)"
    by (simp add: command_So_dispatch command_So_def atoi2_decimal_90 Let_def long_to_double_def
        degToRad_90_below_87 l)
  show "radToDeg (degToRad (Fin 90)) = Fin 90"
    by (rule radToDeg_degToRad)
  show "command decimal_convert
        ((tracking_mount ALTAZM)\<lparr>limits := \<lparr>minAltitude = Fin 0, maxAltitude = degToRad (Fin 90)\<rparr>\<rparr>)
        fresh_io ''Go'' '''' =
     Some (True, (tracking_mount ALTAZM)\<lparr>limits := \<lparr>minAltitude = Fin 0, maxAltitude = degToRad (Fin 90)\<rparr>\<rparr>,
           fresh_io\<lparr>reply := ''90*'', numericReply := False\<rparr>)"
    by (simp add: command_Go_dispatch command_Go_def radToDeg_degToRad sprintf_02ld_star_90)
qed

lemma lround_of_int: "lround (Fin (of_int i)) = i"
  by (simp add: floor_eq_iff)

lemma command_Sh_dispatch:
  "command conv m io ''Sh'' ps = Some (True, command_Sh conv m io ps)"
  by (simp add: dispatch_defs)

lemma command_Gh_dispatch:
  "command conv m io ''Gh'' '''' = Some (True, command_Gh m io)"
  by (simp add: dispatch_defs)

lemma command_Sh_range:
  assumes "atoi2 conv ps = Some deg" "deg < - 30 \<or> 30 < deg"
  shows "command_Sh conv m io ps = (m, io\<lparr>commandError := CE_PARAM_RANGE\<rparr>)"
proof -
  have c: "(- 30 \<le> deg \<and> deg \<le> 30) = False" using assms(2) by arith
  show ?thesis by (simp only: command_Sh_def assms(1) option.case c if_False)
qed

lemma command_Sh_accepted:
  assumes "atoi2 conv ps = Some deg" "- 30 \<le> deg \<and> deg \<le> 30"
  shows "command_Sh conv m io ps =
     (m\<lparr>limits := (limits m)\<lparr>minAltitude := degToRad (long_to_double deg)\<rparr>\<rparr>, io)"
proof -
  have c: "(- 30 \<le> deg \<and> deg \<le> 30) = True" using assms(2) by simp
  show ?thesis by (simp only: command_Sh_def assms(1) option.case c if_True)
qed

lemma lround_radToDeg_degToRad:
  "lround (radToDeg (degToRad (long_to_double deg))) = deg"
  by (simp add: long_to_double_def radToDeg_degToRad lround_of_int)

lemma command_Gh_after_Sh:
  "command_Gh (m\<lparr>limits := (limits m)\<lparr>minAltitude := degToRad (long_to_double deg)\<rparr>\<rparr>) io =
     (m\<lparr>limits := (limits m)\<lparr>minAltitude := degToRad (long_to_double deg)\<rparr>\<rparr>,
      io\<lparr>reply := sprintf_plus02ld_star deg, numericReply := False\<rparr>)"
  by (simp add: command_Gh_def lround_radToDeg_degToRad)

text \<open>
  Claim C8, as stated, fails in its first half: \<^verbatim>\<open>:Sh45#\<close> is rejected with the
  parameter-range error and the state stays as it was, since 45 is outside \<open>[-30, 30]\<close>.
\<close>

theorem C8_counterexample:
  "atoi2 decimal_convert ''45'' = Some 45
   \<and> command decimal_convert (tracking_mount GEM) fresh_io ''Sh'' ''45'' =
       Some (True, tracking_mount GEM, fresh_io\<lparr>commandError := CE_PARAM_RANGE\<rparr>)"
proof -
  have a: "atoi2 decimal_convert ''45'' = Some 45"
    by (simp add: decimal_convert_def decimal_atoi2_def digit_value_def)
  from a command_Sh_range [OF a, of "tracking_mount GEM" fresh_io] show ?thesis
    by (simp add: command_Sh_dispatch)
qed

text \<open>
  Claim C8, amended. For a parameter of \<^verbatim>\<open>:Sh\<close> that \<open>atoi2\<close> reads as \<open>deg\<close>: if \<open>deg\<close> is
  within \<open>[-30, 30]\<close> the command is accepted, the stored limit is \<open>deg\<close> degrees in radians,
  its reading in degrees is \<open>deg\<close>, and \<^verbatim>\<open>:Gh#\<close> then replies with \<open>deg\<close>; if \<open>deg\<close> is outside
  \<open>[-30, 30]\<close> the command returns the parameter-range error and leaves the state as it
  was.
\<close>

theorem C8_horizon_limit:
  assumes "atoi2 conv ps = Some deg"
  shows "(- 30 \<le> deg \<and> deg \<le> 30 \<longrightarrow>
           command conv m io ''Sh'' ps =
             Some (True, m\<lparr>limits := (limits m)\<lparr>minAltitude := degToRad (long_to_double deg)\<rparr>\<rparr>, io)
           \<and> lround (radToDeg (degToRad (long_to_double deg))) = deg
           \<and> command conv (m\<lparr>limits := (limits m)\<lparr>minAltitude := degToRad (long_to_double deg)\<rparr>\<rparr>)
               io ''Gh'' '''' =
             Some (True, m\<lparr>limits := (limits m)\<lparr>minAltitude := degToRad (long_to_double deg)\<rparr>\<rparr>,
                   io\<lparr>reply := sprintf_plus02ld_star deg, numericReply := False\<rparr>))
       \<and> (deg < - 30 \<or> 30 < deg \<longrightarrow>
           command conv m io ''Sh'' ps = Some (True, m, io\<lparr>commandError := CE_PARAM_RANGE\<rparr>))"
proof (intro conjI impI)
  assume r: "- 30 \<le> deg \<and> deg \<le> 30"
  show "command conv m io ''Sh'' ps =
      Some (True, m\<lparr>limits := (limits m)\<lparr>minAltitude := degToRad (long_to_double deg)\<rparr>\<rparr>, io)"
    using command_Sh_accepted [OF assms r, of m io] by (simp add: command_Sh_dispatch)
  show "lround (radToDeg (degToRad (long_to_double deg))) = deg"
    by (rule lround_radToDeg_degToRad)
  show "command conv (m\<lparr>limits := (limits m)\<lparr>minAltitude := degToRad (long_to_double deg)\<rparr>\<rparr>)
               io ''Gh'' '''' =
             Some (True, m\<lparr>limits := (limits m)\<lparr>minAltitude := degToRad (long_to_double deg)\<rparr>\<rparr>,
                   io\<lparr>reply := sprintf_plus02ld_star deg, numericReply := False\<rparr>)"
    by (simp only: command_Gh_dispatch command_Gh_after_Sh)
next
  assume "deg < - 30 \<or> 30 < deg"
  from command_Sh_range [OF assms this, of m io]
  show "command conv m io ''Sh'' ps = Some (True, m, io\<lparr>commandError := CE_PARAM_RANGE\<rparr>)"
    by (simp add: command_Sh_dispatch)
qed

theorem C8_horizon_limit_witness:
  "atoi2 decimal_convert ''25'' = Some 25
   \<and> command decimal_convert (tracking_mount GEM) fresh_io ''Sh'' ''25'' =
       Some (True, (tracking_mount GEM)\<lparr>limits := \<lparr>minAltitude = degToRad (Fin 25), maxAltitude = Fin 1\<rparr>\<rparr>,
             fresh_io)
   \<and> command decimal_convert
       ((tracking_mount GEM)\<lparr>limits := \<lparr>minAltitude = degToRad (Fin 25), maxAltitude = Fin 1\<rparr>\<rparr>)
       fresh_io ''Gh'' '''' =
       Some (True, (tracking_mount GEM)\<lparr>limits := \<lparr>minAltitude = degToRad (Fin 25), maxAltitude = Fin 1\<rparr>\<rparr>,
             fresh_io\<lparr>reply := ''+25*'', numericReply := False\<rparr>)
   \<and> atoi2 decimal_convert ''-31'' = Some (- 31)
   \<and> command decimal_convert (tracking_mount GEM) fresh_io ''Sh'' ''-31'' =
       Some (True, tracking_mount GEM, fresh_io\<lparr>commandError := CE_PARAM_RANGE\<rparr>)"
proof -
  have a: "atoi2 decimal_convert ''25'' = Some 25"
    by (simp add: decimal_convert_def decimal_atoi2_def digit_value_def)
  have b: "atoi2 decimal_convert ''-31'' = Some (- 31)"
    by (simp add: decimal_convert_def decimal_atoi2_def digit_value_def)
  have l: "(limits (tracking_mount GEM))\<lparr>minAltitude := degToRad (long_to_double 25)\<rparr>
      = \<lparr>minAltitude = degToRad (Fin 25), maxAltitude = Fin 1\<rparr>"
    by (simp add: tracking_mount_def long_to_double_def)
  have p: "sprintf_plus02ld_star 25 = ''+25*''"
    by (simp add: sprintf_plus02ld_star_def digits10.simps)
  have ra: "- 30 \<le> (25::int) \<and> (25::int) \<le> 30" by simp
  have rb: "(- 31::int) < - 30 \<or> 30 < (- 31::int)" by simp
  note ca = C8_horizon_limit [OF a, of "tracking_mount GEM" fresh_io, THEN conjunct1, THEN mp, OF ra]
  note cb = C8_horizon_limit [OF b, of "tracking_mount GEM" fresh_io, THEN conjunct2, THEN mp, OF rb]
  have 1: "command decimal_convert (tracking_mount GEM) fresh_io ''Sh'' ''25'' =
       Some (True, (tracking_mount GEM)\<lparr>limits := \<lparr>minAltitude = degToRad (Fin 25), maxAltitude = Fin 1\<rparr>\<rparr>,
             fresh_io)"
    using ca [THEN conjunct1] by (simp only: l)
  have 2: "command decimal_convert
       ((tracking_mount GEM)\<lparr>limits := \<lparr>minAltitude = degToRad (Fin 25), maxAltitude = Fin 1\<rparr>\<rparr>)
       fresh_io ''Gh'' '''' =
       Some (True, (tracking_mount GEM)\<lparr>limits := \<lparr>minAltitude = degToRad (Fin 25), maxAltitude = Fin 1\<rparr>\<rparr>,
             fresh_io\<lparr>reply := ''+25*'', numericReply := False\<rparr>)"
    using ca [THEN conjunct2, THEN conjunct2] by (simp only: l p)
  from a 1 2 b cb show ?thesis by (intro conjI)
qed


section \<open>Backlash over the protocol\<close>

lemma getBacklash_setBacklash: "getBacklash (setBacklash a v) = getBacklash a"
  by (simp add: getBacklash_def setBacklash_def)

lemma setBacklash_arcsec_axis:
  "setBacklash arcsec_axis (arcsecToRad (long_to_double 100)) = arcsec_axis\<lparr>backlashAmountSteps := 1000\<rparr>"
  by (simp add: setBacklash_def arcsecToRad_def long_to_double_def arcsec_axis_def)

lemma getBacklash_arcsec_axis: "getBacklash (arcsec_axis\<lparr>backlashAmountSteps := 1000\<rparr>) = Fin 0"
  by (simp add: getBacklash_def long_to_double_def arcsec_axis_def)

lemma atoi2_decimal_100: "atoi2 decimal_convert ''100'' = Some 100"
  by (simp add: decimal_convert_def decimal_atoi2_def digit_value_def)

lemma command_set_B_dispatch:
  "command conv m io ''$B'' ps = Some (True, command_set_B conv m io ps)"
  by (simp add: dispatch_defs)

lemma command_get_B_dispatch:
  "command conv m io ''%B'' ps = Some (True, command_get_B m io ps)"
  by (simp add: dispatch_defs)

lemma command_get_B_D:
  "command_get_B m io ''D'' =
     (m, io\<lparr>reply := sprintf_d (max 0 (min 3600 (double_to_long (radToArcsec (getBacklash (axis2 m)))))),
            numericReply := False\<rparr>)"
  by (simp add: command_get_B_def char_at_def Let_def max_def min_def)

lemma command_get_B_R:
  "command_get_B m io ''R'' =
     (m, io\<lparr>reply := sprintf_d (max 0 (min 3600 (double_to_long (radToArcsec (getBacklash (axis2 m)))))),
            numericReply := False\<rparr>)"
  by (simp add: command_get_B_def char_at_def Let_def max_def min_def)

lemma sprintf_d_0: "sprintf_d 0 = ''0''"
  by (simp add: sprintf_d_def digits10.simps)

text \<open>
  Claim C9 does not hold of the code. \<^verbatim>\<open>Axis::setBacklash\<close> writes \<open>backlashAmountSteps\<close>,
  \<^verbatim>\<open>Axis::getBacklash\<close> reads \<open>backlashSteps\<close>: what is read does not depend on what was
  set. On an axis with ten steps per arc-second and no backlash taken up, setting 100
  arc-seconds stores 1000 steps and the reading is 0; over the protocol, \<^verbatim>\<open>:$BD100#\<close>
  followed by \<^verbatim>\<open>:%BD#\<close> replies \<^verbatim>\<open>0\<close>.
\<close>

theorem C9_getBacklash_reads_banked_steps:
  "getBacklash (setBacklash a v) = getBacklash a
   \<and> backlashAmountSteps (setBacklash arcsec_axis (arcsecToRad (long_to_double 100))) = 1000
   \<and> getBacklash (setBacklash arcsec_axis (arcsecToRad (long_to_double 100))) = Fin 0
   \<and> command decimal_convert (tracking_mount GEM) fresh_io ''$B'' ''D100'' =
       Some (True, (tracking_mount GEM)\<lparr>axis2 := arcsec_axis\<lparr>backlashAmountSteps := 1000\<rparr>\<rparr>, fresh_io)
   \<and> command decimal_convert
        ((tracking_mount GEM)\<lparr>axis2 := arcsec_axis\<lparr>backlashAmountSteps := 1000\<rparr>\<rparr>) fresh_io ''%B'' ''D'' =
       Some (True, (tracking_mount GEM)\<lparr>axis2 := arcsec_axis\<lparr>backlashAmountSteps := 1000\<rparr>\<rparr>,
             fresh_io\<lparr>reply := ''0'', numericReply := False\<rparr>)"
proof (intro conjI)
  show "getBacklash (setBacklash a v) = getBacklash a"
    by (rule getBacklash_setBacklash)
  show "backlashAmountSteps (setBacklash arcsec_axis (arcsecToRad (long_to_double 100))) = 1000"
    by (simp add: setBacklash_arcsec_axis)
  show "getBacklash (setBacklash arcsec_axis (arcsecToRad (long_to_double 100))) = Fin 0"
    by (simp only: setBacklash_arcsec_axis getBacklash_arcsec_axis)
  have a2: "axis2 (tracking_mount GEM) = arcsec_axis"
    by (simp add: tracking_mount_def)
  show "command decimal_convert (tracking_mount GEM) fresh_io ''$B'' ''D100'' =
       Some (True, (tracking_mount GEM)\<lparr>axis2 := arcsec_axis\<lparr>backlashAmountSteps := 1000\<rparr>\<rparr>, fresh_io)"
    by (simp add: command_set_B_dispatch command_set_B_def atoi2_decimal_100 char_at_def a2
        setBacklash_arcsec_axis)
  show "command decimal_convert
        ((tracking_mount GEM)\<lparr>axis2 := arcsec_axis\<lparr>backlashAmountSteps := 1000\<rparr>\<rparr>) fresh_io ''%B'' ''D'' =
       Some (True, (tracking_mount GEM)\<lparr>axis2 := arcsec_axis\<lparr>backlashAmountSteps := 1000\<rparr>\<rparr>,
             fresh_io\<lparr>reply := ''0'', numericReply := False\<rparr>)"
    by (simp add: command_get_B_dispatch command_get_B_D getBacklash_arcsec_axis radToArcsec_def
        sprintf_d_0)
qed

text \<open>
  Claim C10. In every state \<^verbatim>\<open>:%BR#\<close> and \<^verbatim>\<open>:%BD#\<close> have the same result: the state is
  left as it was and the reply is the backlash that \<^verbatim>\<open>getBacklash\<close> reads from axis 2, in
  arc-seconds, clamped to \<open>[0, 3600]\<close>. Axis 1 does not occur in it.
\<close>

theorem C10_backlash_replies_from_axis2:
  "command conv m io ''%B'' ''R'' = command conv m io ''%B'' ''D''
   \<and> command conv m io ''%B'' ''R'' =
       Some (True, m,
             io\<lparr>reply := sprintf_d (max 0 (min 3600 (double_to_long (radToArcsec (getBacklash (axis2 m)))))),
                numericReply := False\<rparr>)"
  by (simp only: command_get_B_dispatch command_get_B_D command_get_B_R simp_thms)

end
